theory Spec2Isabelle
  imports Main "HOL-Library.Word"
begin

unbundle bit_operations_syntax

section \<open>Bytes and strings\<close>

text \<open>
  A Go \<open>[]byte\<close> is a list of 8-bit words; a Go \<open>string\<close> is a sequence of bytes
  too, kept here as an Isabelle \<open>string\<close> (a list of 8-bit characters).  The two
  conversions \<open>[]byte(s)\<close> and \<open>string(b)\<close> copy the bytes unchanged.
\<close>

type_synonym byte = "8 word"

definition bytes_of_string :: "string \<Rightarrow> byte list" where
  "bytes_of_string s = map of_char s"

definition string_of_bytes :: "byte list \<Rightarrow> string" where
  "string_of_bytes b = map (\<lambda>x. char_of (unat x)) b"

section \<open>Standard library: encoding/hex\<close>

definition hextable :: string where
  "hextable = ''0123456789abcdef''"

text \<open>\<open>hex.EncodeToString\<close>: two lower-case digits per byte, high nibble first.\<close>

fun hex_EncodeToString :: "byte list \<Rightarrow> string" where
  "hex_EncodeToString [] = []"
| "hex_EncodeToString (v # src) =
     hextable ! unat (drop_bit 4 v) # hextable ! unat (v AND 0x0f) # hex_EncodeToString src"

text \<open>
  \<open>reverseHexTable\<close>: the value of a hexadecimal digit (either case), and \<open>0xff\<close> for
  every other byte.
\<close>

definition reverseHexTable :: "char \<Rightarrow> byte" where
  "reverseHexTable c =
     (let n = (of_char c :: nat) in
      if 48 \<le> n \<and> n \<le> 57 then of_nat (n - 48)
      else if 65 \<le> n \<and> n \<le> 70 then of_nat (n - 55)
      else if 97 \<le> n \<and> n \<le> 102 then of_nat (n - 87)
      else 0xff)"

datatype hex_error = InvalidByteError char | ErrLength

text \<open>
  \<open>hex.DecodeString\<close> walks the source two characters at a time.  It returns the bytes
  decoded before the first problem together with the error, if any; a trailing single
  character is reported as an invalid byte when it is no digit and as \<open>ErrLength\<close>
  otherwise.
\<close>

fun hex_DecodeString :: "string \<Rightarrow> byte list \<times> hex_error option" where
  "hex_DecodeString [] = ([], None)"
| "hex_DecodeString [p] =
     (if reverseHexTable p > 0x0f then ([], Some (InvalidByteError p))
      else ([], Some ErrLength))"
| "hex_DecodeString (p # q # src) =
     (let a = reverseHexTable p; b = reverseHexTable q in
      if a > 0x0f then ([], Some (InvalidByteError p))
      else if b > 0x0f then ([], Some (InvalidByteError q))
      else (case hex_DecodeString src of
              (dst, err) \<Rightarrow> ((push_bit 4 a OR b) # dst, err)))"

text \<open>The hexadecimal digits: \<open>0\<close> to \<open>9\<close>, \<open>A\<close> to \<open>F\<close> and \<open>a\<close> to \<open>f\<close>.\<close>

definition is_hex_digit :: "char \<Rightarrow> bool" where
  "is_hex_digit c =
     (let n = (of_char c :: nat) in
      (48 \<le> n \<and> n \<le> 57) \<or> (65 \<le> n \<and> n \<le> 70) \<or> (97 \<le> n \<and> n \<le> 102))"

section \<open>Standard library: crypto/subtle\<close>

text \<open>\<open>subtle.ConstantTimeByteEq\<close>: \<open>int((uint32(x ^ y) - 1) >> 31)\<close>.\<close>

definition ConstantTimeByteEq :: "byte \<Rightarrow> byte \<Rightarrow> int" where
  "ConstantTimeByteEq x y = uint (drop_bit 31 ((ucast (x XOR y) :: 32 word) - 1))"

text \<open>
  \<open>subtle.ConstantTimeCompare\<close>: 0 at once when the lengths differ; otherwise the
  XOR of every pair of bytes is OR-ed into one accumulator, which is compared with 0 at
  the end.
\<close>

fun ctc_loop :: "byte \<Rightarrow> byte list \<Rightarrow> byte list \<Rightarrow> byte" where
  "ctc_loop v (a # x) (b # y) = ctc_loop (v OR (a XOR b)) x y"
| "ctc_loop v _ _ = v"

definition ConstantTimeCompare :: "byte list \<Rightarrow> byte list \<Rightarrow> int" where
  "ConstantTimeCompare x y =
     (if length x \<noteq> length y then 0 else ConstantTimeByteEq (ctc_loop 0 x y) 0)"

section \<open>Standard library: crypto/sha256\<close>

text \<open>The round constants and the initial hash value of SHA-256 (FIPS 180-4).\<close>

definition sha256_K :: "32 word list" where
  "sha256_K =
    [1116352408, 1899447441, 3049323471, 3921009573, 961987163, 1508970993, 2453635748,
     2870763221, 3624381080, 310598401, 607225278, 1426881987, 1925078388, 2162078206,
     2614888103, 3248222580, 3835390401, 4022224774, 264347078, 604807628, 770255983,
     1249150122, 1555081692, 1996064986, 2554220882, 2821834349, 2952996808, 3210313671,
     3336571891, 3584528711, 113926993, 338241895, 666307205, 773529912, 1294757372,
     1396182291, 1695183700, 1986661051, 2177026350, 2456956037, 2730485921, 2820302411,
     3259730800, 3345764771, 3516065817, 3600352804, 4094571909, 275423344, 430227734,
     506948616, 659060556, 883997877, 958139571, 1322822218, 1537002063, 1747873779,
     1955562222, 2024104815, 2227730452, 2361852424, 2428436474, 2756734187, 3204031479,
     3329325298]"

definition sha256_init :: "32 word list" where
  "sha256_init =
    [1779033703, 3144134277, 1013904242, 2773480762, 1359893119, 2600822924, 528734635,
     1541459225]"

text \<open>Big-endian encodings.\<close>

definition be32 :: "byte list \<Rightarrow> 32 word" where
  "be32 bs = foldl (\<lambda>acc b. push_bit 8 acc OR ucast b) 0 bs"

definition bytes_of_be32 :: "32 word \<Rightarrow> byte list" where
  "bytes_of_be32 w = map (\<lambda>i. ucast (drop_bit (8 * (3 - i)) w)) [0..<4]"

definition bytes_of_be64 :: "64 word \<Rightarrow> byte list" where
  "bytes_of_be64 w = map (\<lambda>i. ucast (drop_bit (8 * (7 - i)) w)) [0..<8]"

fun chunks :: "nat \<Rightarrow> 'a list \<Rightarrow> 'a list list" where
  "chunks n xs = (if n = 0 \<or> xs = [] then [] else take n xs # chunks n (drop n xs))"

declare chunks.simps [simp del]

text \<open>
  Padding: the byte \<open>0x80\<close>, zero bytes up to 56 modulo 64, and the length of the
  message in bits as an unsigned 64-bit number.
\<close>

definition sha256_pad :: "byte list \<Rightarrow> byte list" where
  "sha256_pad m =
     m @ [0x80] @ replicate ((119 - length m mod 64) mod 64) 0
       @ bytes_of_be64 (of_nat (8 * length m))"

definition bsig0 :: "32 word \<Rightarrow> 32 word" where
  "bsig0 x = word_rotr 2 x XOR word_rotr 13 x XOR word_rotr 22 x"

definition bsig1 :: "32 word \<Rightarrow> 32 word" where
  "bsig1 x = word_rotr 6 x XOR word_rotr 11 x XOR word_rotr 25 x"

definition ssig0 :: "32 word \<Rightarrow> 32 word" where
  "ssig0 x = word_rotr 7 x XOR word_rotr 18 x XOR drop_bit 3 x"

definition ssig1 :: "32 word \<Rightarrow> 32 word" where
  "ssig1 x = word_rotr 17 x XOR word_rotr 19 x XOR drop_bit 10 x"

fun sha256_schedule :: "nat \<Rightarrow> 32 word list \<Rightarrow> 32 word list" where
  "sha256_schedule 0 w = w"
| "sha256_schedule (Suc n) w =
     (let t = length w in
      sha256_schedule n
        (w @ [ssig1 (w ! (t - 2)) + w ! (t - 7) + ssig0 (w ! (t - 15)) + w ! (t - 16)]))"

type_synonym sha256_state =
  "32 word \<times> 32 word \<times> 32 word \<times> 32 word \<times> 32 word \<times> 32 word \<times> 32 word \<times> 32 word"

fun sha256_round :: "32 word \<times> 32 word \<Rightarrow> sha256_state \<Rightarrow> sha256_state" where
  "sha256_round (k, w) (a, b, c, d, e, f, g, h) =
     (let t1 = h + bsig1 e + ((e AND f) XOR (NOT e AND g)) + k + w;
          t2 = bsig0 a + ((a AND b) XOR (a AND c) XOR (b AND c))
      in (t1 + t2, a, b, c, d + t1, e, f, g))"

fun sha256_block :: "sha256_state \<Rightarrow> byte list \<Rightarrow> sha256_state" where
  "sha256_block (a, b, c, d, e, f, g, h) blk =
     (case fold sha256_round
             (zip sha256_K (sha256_schedule 48 (map be32 (chunks 4 blk))))
             (a, b, c, d, e, f, g, h) of
        (a', b', c', d', e', f', g', h') \<Rightarrow>
          (a + a', b + b', c + c', d + d', e + e', f + f', g + g', h + h'))"

text \<open>\<open>sha256.Sum256\<close>: the 32-byte digest of the data.\<close>

definition sha256_Sum256 :: "byte list \<Rightarrow> byte list" where
  "sha256_Sum256 m =
     (case foldl sha256_block
             (sha256_init ! 0, sha256_init ! 1, sha256_init ! 2, sha256_init ! 3,
              sha256_init ! 4, sha256_init ! 5, sha256_init ! 6, sha256_init ! 7)
             (chunks 64 (sha256_pad m)) of
        (a, b, c, d, e, f, g, h) \<Rightarrow> concat (map bytes_of_be32 [a, b, c, d, e, f, g, h]))"

section \<open>Standard library: crypto/hmac\<close>

text \<open>
  \<open>hmac.New(sha256.New, key)\<close> followed by \<open>Write\<close> and \<open>Sum(nil)\<close>: HMAC with block
  size 64 (RFC 2104).  A key longer than a block is hashed first.
\<close>

definition hmac_sha256 :: "byte list \<Rightarrow> byte list \<Rightarrow> byte list" where
  "hmac_sha256 k m =
     (let k0 = (if length k > 64 then sha256_Sum256 k else k);
          kp = k0 @ replicate (64 - length k0) 0;
          ipad = map (\<lambda>b. b XOR 0x36) kp;
          opad = map (\<lambda>b. b XOR 0x5c) kp
      in sha256_Sum256 (opad @ sha256_Sum256 (ipad @ m)))"

text \<open>\<open>hmac.Equal\<close>: a comparison that does not leak timing information.\<close>

definition hmac_Equal :: "byte list \<Rightarrow> byte list \<Rightarrow> bool" where
  "hmac_Equal mac1 mac2 \<longleftrightarrow> ConstantTimeCompare mac1 mac2 = 1"

section \<open>Standard library: crypto/aes\<close>

text \<open>The AES block cipher (FIPS 197) on a state of 16 bytes, column after column.\<close>

definition aes_sbox :: "byte list" where
  "aes_sbox =
    [99, 124, 119, 123, 242, 107, 111, 197, 48, 1, 103, 43, 254, 215, 171, 118,
     202, 130, 201, 125, 250, 89, 71, 240, 173, 212, 162, 175, 156, 164, 114, 192,
     183, 253, 147, 38, 54, 63, 247, 204, 52, 165, 229, 241, 113, 216, 49, 21,
     4, 199, 35, 195, 24, 150, 5, 154, 7, 18, 128, 226, 235, 39, 178, 117,
     9, 131, 44, 26, 27, 110, 90, 160, 82, 59, 214, 179, 41, 227, 47, 132,
     83, 209, 0, 237, 32, 252, 177, 91, 106, 203, 190, 57, 74, 76, 88, 207,
     208, 239, 170, 251, 67, 77, 51, 133, 69, 249, 2, 127, 80, 60, 159, 168,
     81, 163, 64, 143, 146, 157, 56, 245, 188, 182, 218, 33, 16, 255, 243, 210,
     205, 12, 19, 236, 95, 151, 68, 23, 196, 167, 126, 61, 100, 93, 25, 115,
     96, 129, 79, 220, 34, 42, 144, 136, 70, 238, 184, 20, 222, 94, 11, 219,
     224, 50, 58, 10, 73, 6, 36, 92, 194, 211, 172, 98, 145, 149, 228, 121,
     231, 200, 55, 109, 141, 213, 78, 169, 108, 86, 244, 234, 101, 122, 174, 8,
     186, 120, 37, 46, 28, 166, 180, 198, 232, 221, 116, 31, 75, 189, 139, 138,
     112, 62, 181, 102, 72, 3, 246, 14, 97, 53, 87, 185, 134, 193, 29, 158,
     225, 248, 152, 17, 105, 217, 142, 148, 155, 30, 135, 233, 206, 85, 40, 223,
     140, 161, 137, 13, 191, 230, 66, 104, 65, 153, 45, 15, 176, 84, 187, 22]"

definition xor_bytes :: "byte list \<Rightarrow> byte list \<Rightarrow> byte list" where
  "xor_bytes xs ys = map2 (XOR) xs ys"

definition SubBytes :: "byte list \<Rightarrow> byte list" where
  "SubBytes s = map (\<lambda>b. aes_sbox ! unat b) s"

definition xtime :: "byte \<Rightarrow> byte" where
  "xtime b = (if bit b 7 then push_bit 1 b XOR 0x1b else push_bit 1 b)"

definition ShiftRows :: "byte list \<Rightarrow> byte list" where
  "ShiftRows s = map (\<lambda>i. s ! (((i div 4 + i mod 4) mod 4) * 4 + i mod 4)) [0..<16]"

fun MixColumn :: "byte list \<Rightarrow> byte list" where
  "MixColumn [a0, a1, a2, a3] =
     [xtime a0 XOR (xtime a1 XOR a1) XOR a2 XOR a3,
      a0 XOR xtime a1 XOR (xtime a2 XOR a2) XOR a3,
      a0 XOR a1 XOR xtime a2 XOR (xtime a3 XOR a3),
      (xtime a0 XOR a0) XOR a1 XOR a2 XOR xtime a3]"
| "MixColumn col = col"

definition MixColumns :: "byte list \<Rightarrow> byte list" where
  "MixColumns s = concat (map MixColumn (chunks 4 s))"

text \<open>
  The key schedule, for a key of \<open>Nk\<close> words: \<open>n\<close> more words are appended to the
  words \<open>w\<close> made so far, \<open>rc\<close> being the next round constant.
\<close>

fun KeyExpansion :: "nat \<Rightarrow> nat \<Rightarrow> byte \<Rightarrow> byte list list \<Rightarrow> byte list list" where
  "KeyExpansion Nk 0 rc w = w"
| "KeyExpansion Nk (Suc n) rc w =
     (let i = length w; t = w ! (i - 1) in
      if i mod Nk = 0 then
        KeyExpansion Nk n (xtime rc)
          (w @ [xor_bytes (w ! (i - Nk)) (xor_bytes (SubBytes (rotate1 t)) [rc, 0, 0, 0])])
      else if 6 < Nk \<and> i mod Nk = 4 then
        KeyExpansion Nk n rc (w @ [xor_bytes (w ! (i - Nk)) (SubBytes t)])
      else
        KeyExpansion Nk n rc (w @ [xor_bytes (w ! (i - Nk)) t]))"

definition round_key :: "byte list list \<Rightarrow> nat \<Rightarrow> byte list" where
  "round_key w r = concat (take 4 (drop (4 * r) w))"

definition aes_encrypt_bytes :: "byte list \<Rightarrow> byte list \<Rightarrow> byte list" where
  "aes_encrypt_bytes k blk =
     (let Nk = length k div 4; Nr = Nk + 6;
          w = KeyExpansion Nk (4 * (Nr + 1) - Nk) 1 (chunks 4 k);
          s0 = xor_bytes blk (round_key w 0);
          s1 = fold (\<lambda>r s. xor_bytes (MixColumns (ShiftRows (SubBytes s))) (round_key w r))
                 [1..<Nr] s0
      in xor_bytes (ShiftRows (SubBytes s1)) (round_key w Nr))"

text \<open>A block as one 128-bit word, its first byte being the most significant.\<close>

definition block_of_bytes :: "byte list \<Rightarrow> 128 word" where
  "block_of_bytes bs = foldl (\<lambda>acc b. push_bit 8 acc OR ucast b) 0 bs"

definition bytes_of_block :: "128 word \<Rightarrow> byte list" where
  "bytes_of_block w = map (\<lambda>i. ucast (drop_bit (8 * (15 - i)) w)) [0..<16]"

definition aes_encrypt_block :: "byte list \<Rightarrow> 128 word \<Rightarrow> 128 word" where
  "aes_encrypt_block k b = block_of_bytes (aes_encrypt_bytes k (bytes_of_block b))"

text \<open>
  \<open>aes.NewCipher\<close> accepts keys of 16, 24 and 32 bytes and rejects every other length
  with a \<open>KeySizeError\<close>.  The cipher made is represented by its key.
\<close>

datatype aes_cipher = AesCipher "byte list"

definition aes_NewCipher :: "byte list \<Rightarrow> nat + aes_cipher" where
  "aes_NewCipher k =
     (if length k = 16 \<or> length k = 24 \<or> length k = 32 then Inr (AesCipher k)
      else Inl (length k))"

fun cipher_Encrypt :: "aes_cipher \<Rightarrow> 128 word \<Rightarrow> 128 word" where
  "cipher_Encrypt (AesCipher k) b = aes_encrypt_block k b"

definition cipher_BlockSize :: "aes_cipher \<Rightarrow> nat" where
  "cipher_BlockSize c = 16"

section \<open>Standard library: crypto/cipher, Galois/Counter Mode\<close>

text \<open>
  GCM with the standard nonce of 12 bytes and tag of 16 bytes (NIST SP 800-38D).
  Multiplication in GF(2^128): bit \<open>i\<close> of the standard's bit string is bit \<open>127 - i\<close>
  of the word.
\<close>

definition gcmStandardNonceSize :: nat where
  "gcmStandardNonceSize = 12"

definition gcmTagSize :: nat where
  "gcmTagSize = 16"

fun gf128_mul_loop :: "nat \<Rightarrow> 128 word \<Rightarrow> 128 word \<Rightarrow> 128 word \<Rightarrow> 128 word" where
  "gf128_mul_loop 0 x v z = z"
| "gf128_mul_loop (Suc n) x v z =
     gf128_mul_loop n x
       (if bit v 0 then drop_bit 1 v XOR push_bit 120 0xe1 else drop_bit 1 v)
       (if bit x n then z XOR v else z)"

definition gf128_mul :: "128 word \<Rightarrow> 128 word \<Rightarrow> 128 word" where
  "gf128_mul x y = gf128_mul_loop 128 x y 0"

definition ghash :: "128 word \<Rightarrow> 128 word list \<Rightarrow> 128 word" where
  "ghash h blocks = foldl (\<lambda>y b. gf128_mul (y XOR b) h) 0 blocks"

definition inc32 :: "128 word \<Rightarrow> 128 word" where
  "inc32 cb = (cb AND NOT (mask 32)) OR ((cb + 1) AND mask 32)"

fun gcm_keystream :: "aes_cipher \<Rightarrow> 128 word \<Rightarrow> nat \<Rightarrow> byte list" where
  "gcm_keystream c cb 0 = []"
| "gcm_keystream c cb (Suc n) =
     bytes_of_block (cipher_Encrypt c cb) @ gcm_keystream c (inc32 cb) n"

definition gcm_counterCrypt :: "aes_cipher \<Rightarrow> 128 word \<Rightarrow> byte list \<Rightarrow> byte list" where
  "gcm_counterCrypt c cb data =
     xor_bytes data (gcm_keystream c cb ((length data + 15) div 16))"

definition gcm_J0 :: "byte list \<Rightarrow> 128 word" where
  "gcm_J0 nonce = block_of_bytes (nonce @ [0, 0, 0, 1])"

definition pad16 :: "byte list \<Rightarrow> byte list" where
  "pad16 bs = bs @ replicate ((16 - length bs mod 16) mod 16) 0"

text \<open>The tag of a ciphertext, without additional data.\<close>

definition gcm_auth :: "aes_cipher \<Rightarrow> byte list \<Rightarrow> byte list \<Rightarrow> byte list" where
  "gcm_auth c nonce ct =
     (let h = cipher_Encrypt c 0;
          s = ghash h (map block_of_bytes (chunks 16 (pad16 ct))
                        @ [block_of_bytes (bytes_of_be64 0 @ bytes_of_be64 (of_nat (8 * length ct)))])
      in bytes_of_block (cipher_Encrypt c (gcm_J0 nonce) XOR s))"

text \<open>
  A Go call either returns or panics.  The panics that the calls below can raise are
  listed, so that a panic is a result of its own and never mistaken for an error value.
\<close>

datatype panic = IncorrectNonceLength | MessageTooLarge | SliceBoundsOutOfRange

datatype 'a outcome = Panicked panic | Returned 'a

text \<open>
  \<open>cipher.NewGCM\<close> refuses block ciphers whose block size is not 16; the cipher made is
  represented by the block cipher it wraps.  \<open>NonceSize\<close> is 12.
\<close>

definition cipher_NewGCM :: "aes_cipher \<Rightarrow> string + aes_cipher" where
  "cipher_NewGCM c =
     (if cipher_BlockSize c \<noteq> 16 then Inl ''cipher: NewGCM requires 128-bit block cipher''
      else Inr c)"

definition gcm_NonceSize :: "aes_cipher \<Rightarrow> nat" where
  "gcm_NonceSize g = gcmStandardNonceSize"

text \<open>What sealing produces: the ciphertext of counter mode followed by its tag.\<close>

definition gcm_sealed :: "aes_cipher \<Rightarrow> byte list \<Rightarrow> byte list \<Rightarrow> byte list" where
  "gcm_sealed g nonce plaintext =
     (let ct = gcm_counterCrypt g (inc32 (gcm_J0 nonce)) plaintext
      in ct @ gcm_auth g nonce ct)"

text \<open>
  \<open>Seal(dst, nonce, plaintext, nil)\<close> panics on a nonce of the wrong length and on a
  plaintext of more than \<open>(2^32 - 2) * 16\<close> bytes; otherwise it appends the ciphertext
  and the tag to \<open>dst\<close>.
\<close>

definition gcm_Seal :: "aes_cipher \<Rightarrow> byte list \<Rightarrow> byte list \<Rightarrow> byte list \<Rightarrow> byte list outcome" where
  "gcm_Seal g dst nonce plaintext =
     (if length nonce \<noteq> gcm_NonceSize g then Panicked IncorrectNonceLength
      else if (2 ^ 32 - 2) * int (cipher_BlockSize g) < int (length plaintext)
      then Panicked MessageTooLarge
      else Returned (dst @ gcm_sealed g nonce plaintext))"

text \<open>
  \<open>Open(nil, nonce, ciphertext, nil)\<close> panics on a nonce of the wrong length; it returns
  the error \<open>errOpen\<close> (here \<open>None\<close>) when the input is shorter than a tag, longer than
  the largest sealed message, or when the tag recomputed from the ciphertext differs
  from the tag received; only then is the ciphertext decrypted.
\<close>

definition gcm_Open :: "aes_cipher \<Rightarrow> byte list \<Rightarrow> byte list \<Rightarrow> byte list option outcome" where
  "gcm_Open g nonce ciphertext =
     (if length nonce \<noteq> gcm_NonceSize g then Panicked IncorrectNonceLength
      else if length ciphertext < gcmTagSize then Returned None
      else if (2 ^ 32 - 2) * int (cipher_BlockSize g) + int gcmTagSize < int (length ciphertext)
      then Returned None
      else (let tag = drop (length ciphertext - gcmTagSize) ciphertext;
                ct = take (length ciphertext - gcmTagSize) ciphertext;
                expectedTag = gcm_auth g nonce ct
            in if ConstantTimeCompare expectedTag tag \<noteq> 1 then Returned None
               else Returned (Some (gcm_counterCrypt g (inc32 (gcm_J0 nonce)) ct))))"

section \<open>Standard library: io and crypto/rand\<close>

text \<open>
  The random source is the sequence of bytes it will deliver.  \<open>io.ReadFull\<close> fills a
  buffer of \<open>n\<close> bytes or fails when the source ends first.
\<close>

definition io_ReadFull :: "byte list \<Rightarrow> nat \<Rightarrow> byte list option \<times> byte list" where
  "io_ReadFull r n = (if length r < n then (None, []) else (Some (take n r), drop n r))"

section \<open>Package crypto: the envelope\<close>

record Envelope =
  key :: "byte list"
  hmacSecret :: "byte list"

datatype crypto_error =
    InvalidHexKey hex_error
  | KeyNot256Bits nat
  | CreateCipherFailed nat
  | CreateGCMFailed string
  | GenerateNonceFailed
  | CiphertextTooShort
  | DecryptionFailed

definition NewEnvelope :: "string \<Rightarrow> string \<Rightarrow> crypto_error + Envelope" where
  "NewEnvelope hexKey secret =
     (case hex_DecodeString hexKey of
        (k, Some err) \<Rightarrow> Inl (InvalidHexKey err)
      | (k, None) \<Rightarrow>
          if length k \<noteq> 32 then Inl (KeyNot256Bits (length k))
          else Inr \<lparr>key = k, hmacSecret = bytes_of_string secret\<rparr>)"

text \<open>
  \<open>Encrypt\<close> reads the nonce from the random source \<open>rnd\<close> and returns what is left of
  the source with its result.  The nonce is both the destination prefix and the nonce of
  \<open>Seal\<close>, so the result is the nonce followed by ciphertext and tag.
\<close>

definition Envelope_Encrypt ::
  "Envelope \<Rightarrow> byte list \<Rightarrow> byte list \<Rightarrow> (crypto_error + byte list) outcome \<times> byte list" where
  "Envelope_Encrypt e rnd plaintext =
     (case aes_NewCipher (key e) of
        Inl n \<Rightarrow> (Returned (Inl (CreateCipherFailed n)), rnd)
      | Inr block \<Rightarrow>
          (case cipher_NewGCM block of
             Inl msg \<Rightarrow> (Returned (Inl (CreateGCMFailed msg)), rnd)
           | Inr gcm \<Rightarrow>
               (case io_ReadFull rnd (gcm_NonceSize gcm) of
                  (None, rnd') \<Rightarrow> (Returned (Inl GenerateNonceFailed), rnd')
                | (Some nonce, rnd') \<Rightarrow>
                    (case gcm_Seal gcm nonce nonce plaintext of
                       Panicked p \<Rightarrow> (Panicked p, rnd')
                     | Returned ciphertext \<Rightarrow> (Returned (Inr ciphertext), rnd')))))"

definition Envelope_Decrypt :: "Envelope \<Rightarrow> byte list \<Rightarrow> (crypto_error + byte list) outcome" where
  "Envelope_Decrypt e ciphertext =
     (case aes_NewCipher (key e) of
        Inl n \<Rightarrow> Returned (Inl (CreateCipherFailed n))
      | Inr block \<Rightarrow>
          (case cipher_NewGCM block of
             Inl msg \<Rightarrow> Returned (Inl (CreateGCMFailed msg))
           | Inr gcm \<Rightarrow>
               (let nonceSize = gcm_NonceSize gcm in
                if length ciphertext < nonceSize then Returned (Inl CiphertextTooShort)
                else (case gcm_Open gcm (take nonceSize ciphertext) (drop nonceSize ciphertext) of
                        Panicked p \<Rightarrow> Panicked p
                      | Returned None \<Rightarrow> Returned (Inl DecryptionFailed)
                      | Returned (Some plaintext) \<Rightarrow> Returned (Inr plaintext)))))"

definition Envelope_SignMetadata :: "Envelope \<Rightarrow> string \<Rightarrow> string" where
  "Envelope_SignMetadata e metadata =
     hex_EncodeToString (hmac_sha256 (hmacSecret e) (bytes_of_string metadata))"

definition Envelope_VerifyMetadata :: "Envelope \<Rightarrow> string \<Rightarrow> string \<Rightarrow> bool" where
  "Envelope_VerifyMetadata e metadata signature =
     (let expected = Envelope_SignMetadata e metadata
      in hmac_Equal (bytes_of_string expected) (bytes_of_string signature))"

section \<open>Standard library: net/http\<close>

text \<open>
  What the backend sees of HTTP: a request is made from a method, a URL and a body; the
  client sends it and comes back with a response or with a transport error (connection
  failure, timeout, cancelled context).  The remote side is a state \<open>'s\<close> that every
  exchange may change.  \<open>parse_error\<close> is the error of \<open>url.Parse\<close> on a raw URL, if
  any; a response body is the bytes that can be read and the error that ends the
  reading, if any.
\<close>

datatype http_method = MethodPut | MethodGet

record http_request =
  Method :: http_method
  URL :: string
  Header :: "(string \<times> string) list"
  ContentLength :: int
  RequestBody :: "byte list"

record http_response =
  StatusCode :: int
  Body :: "byte list"
  BodyErr :: "string option"

record 's transport =
  parse_error :: "string \<Rightarrow> string option"
  Do :: "'s \<Rightarrow> http_request \<Rightarrow> (string + http_response) \<times> 's"

definition http_NewRequestWithContext ::
  "'s transport \<Rightarrow> http_method \<Rightarrow> string \<Rightarrow> byte list \<Rightarrow> string + http_request" where
  "http_NewRequestWithContext env m url body =
     (case parse_error env url of
        Some err \<Rightarrow> Inl err
      | None \<Rightarrow> Inr \<lparr>Method = m, URL = url, Header = [],
                      ContentLength = int (length body), RequestBody = body\<rparr>)"

definition io_ReadAll :: "http_response \<Rightarrow> byte list \<times> string option" where
  "io_ReadAll resp = (Body resp, BodyErr resp)"

section \<open>Package storage: references and the S3 backend\<close>

record Reference =
  URI :: string
  Checksum :: string
  Encrypted :: bool
  SizeBytes :: int

record S3Config =
  Endpoint :: string
  Bucket :: string
  Prefix :: string
  Region :: string
  AccessKey :: string
  SecretKey :: string
  UseSSL :: bool

record S3Backend =
  endpoint :: string
  bucket :: string
  prefix :: string
  accessKey :: string
  secretKey :: string
  useSSL :: bool

datatype storage_error =
    BucketRequired
  | CreateRequestFailed string
  | PutFailed string
  | PutStatus int string
  | GetFailed string
  | GetStatus int string
  | ReadResponseFailed string
  | ChecksumMismatch string string

definition NewS3Backend :: "S3Config \<Rightarrow> storage_error + S3Backend" where
  "NewS3Backend cfg =
     (if Bucket cfg = [] then Inl BucketRequired
      else Inr \<lparr>endpoint = Endpoint cfg, bucket = Bucket cfg, prefix = Prefix cfg,
                accessKey = AccessKey cfg, secretKey = SecretKey cfg, useSSL = UseSSL cfg\<rparr>)"

definition S3Backend_Store ::
  "'s transport \<Rightarrow> 's \<Rightarrow> S3Backend \<Rightarrow> string \<Rightarrow> string \<Rightarrow> string \<Rightarrow> byte list
     \<Rightarrow> (storage_error + Reference) \<times> 's" where
  "S3Backend_Store env st s traceID spanID attrKey data =
     (let hash = sha256_Sum256 data;
          checksum = hex_EncodeToString hash;
          k = prefix s @ traceID @ ''/'' @ spanID @ ''/'' @ attrKey;
          scheme = (if useSSL s then ''https'' else ''http'');
          url = scheme @ ''://'' @ endpoint s @ ''/'' @ bucket s @ ''/'' @ k
      in case http_NewRequestWithContext env MethodPut url data of
           Inl err \<Rightarrow> (Inl (CreateRequestFailed err), st)
         | Inr req0 \<Rightarrow>
             (let req = req0\<lparr>Header := [(''Content-Type'', ''application/octet-stream'')],
                             ContentLength := int (length data)\<rparr>
              in case Do env st req of
                   (Inl err, st') \<Rightarrow> (Inl (PutFailed err), st')
                 | (Inr resp, st') \<Rightarrow>
                     if 300 \<le> StatusCode resp
                     then (Inl (PutStatus (StatusCode resp)
                                  (string_of_bytes (fst (io_ReadAll resp)))), st')
                     else (Inr \<lparr>URI = ''promptvault://s3/'' @ bucket s @ ''/'' @ k,
                                 Checksum = checksum,
                                 Encrypted = False,
                                 SizeBytes = int (length data)\<rparr>, st')))"

text \<open>
  \<open>Retrieve\<close> cuts the first \<open>len("promptvault://s3/")\<close> bytes off the URI without
  looking at them; the slice expression panics when the URI is shorter than that.
\<close>

definition S3Backend_Retrieve ::
  "'s transport \<Rightarrow> 's \<Rightarrow> S3Backend \<Rightarrow> Reference
     \<Rightarrow> (storage_error + byte list) outcome \<times> 's" where
  "S3Backend_Retrieve env st s ref =
     (if length (URI ref) < length ''promptvault://s3/''
      then (Panicked SliceBoundsOutOfRange, st)
      else
       (let path = drop (length ''promptvault://s3/'') (URI ref);
            scheme = (if useSSL s then ''https'' else ''http'');
            url = scheme @ ''://'' @ endpoint s @ ''/'' @ path
        in case http_NewRequestWithContext env MethodGet url [] of
             Inl err \<Rightarrow> (Returned (Inl (CreateRequestFailed err)), st)
           | Inr req \<Rightarrow>
               (case Do env st req of
                  (Inl err, st') \<Rightarrow> (Returned (Inl (GetFailed err)), st')
                | (Inr resp, st') \<Rightarrow>
                    if 300 \<le> StatusCode resp
                    then (Returned (Inl (GetStatus (StatusCode resp)
                                           (string_of_bytes (fst (io_ReadAll resp))))), st')
                    else
                     (case io_ReadAll resp of
                        (data, Some err) \<Rightarrow> (Returned (Inl (ReadResponseFailed err)), st')
                      | (data, None) \<Rightarrow>
                          (let hash = sha256_Sum256 data;
                               checksum = hex_EncodeToString hash
                           in if checksum \<noteq> Checksum ref
                              then (Returned (Inl (ChecksumMismatch (Checksum ref) checksum)), st')
                              else (Returned (Inr data), st'))))))"

text \<open>
  An object store as the remote side: it keeps the body of every PUT under the URL of
  the request and serves it to a GET of the same URL; a GET of an unknown URL is
  answered by status 404.
\<close>

definition object_store_Do ::
  "(string \<rightharpoonup> byte list) \<Rightarrow> http_request
     \<Rightarrow> (string + http_response) \<times> (string \<rightharpoonup> byte list)" where
  "object_store_Do m req =
     (case Method req of
        MethodPut \<Rightarrow>
          (Inr \<lparr>StatusCode = 200, Body = [], BodyErr = None\<rparr>, m(URL req \<mapsto> RequestBody req))
      | MethodGet \<Rightarrow>
          (case m (URL req) of
             None \<Rightarrow> (Inr \<lparr>StatusCode = 404, Body = [], BodyErr = None\<rparr>, m)
           | Some d \<Rightarrow> (Inr \<lparr>StatusCode = 200, Body = d, BodyErr = None\<rparr>, m)))"

definition object_store :: "(string \<rightharpoonup> byte list) transport" where
  "object_store = \<lparr>parse_error = (\<lambda>url. None), Do = object_store_Do\<rparr>"

text \<open>
  Names for the URL that \<open>Store\<close> sends its PUT to, and for the URL and the request
  that \<open>Retrieve\<close> makes from a reference.
\<close>

definition get_url :: "S3Backend \<Rightarrow> Reference \<Rightarrow> string" where
  "get_url s ref =
     (if useSSL s then ''https'' else ''http'') @ ''://'' @ endpoint s @ ''/'' @ drop 17 (URI ref)"

definition get_request :: "S3Backend \<Rightarrow> Reference \<Rightarrow> http_request" where
  "get_request s ref =
     \<lparr>Method = MethodGet, URL = get_url s ref, Header = [], ContentLength = 0, RequestBody = []\<rparr>"

definition put_url :: "S3Backend \<Rightarrow> string \<Rightarrow> string \<Rightarrow> string \<Rightarrow> string" where
  "put_url s traceID spanID attrKey =
     (if useSSL s then ''https'' else ''http'') @ ''://'' @ endpoint s @ ''/'' @ bucket s @ ''/''
       @ (prefix s @ traceID @ ''/'' @ spanID @ ''/'' @ attrKey)"

section \<open>Package promptvaultprocessor: offloading the attributes of a span\<close>

record VaultConfig =
  Keys :: "string list"
  SizeThreshold :: int
  Mode :: string

text \<open>\<open>newProcessor\<close> builds the lookup set from the configured keys.\<close>

definition keySet_of :: "string list \<Rightarrow> string \<Rightarrow> bool" where
  "keySet_of ks k \<longleftrightarrow> k \<in> set ks"

text \<open>
  The processor, with the S3 backend as its storage backend.  \<open>keySet\<close> is the lookup
  set built from the configured keys; a key that is absent reads as false.
\<close>

record vaultProcessor =
  cfg_Vault :: VaultConfig
  backend :: S3Backend
  envelope :: "Envelope option"
  keySet :: "string \<Rightarrow> bool"

text \<open>An attribute value; \<open>Str\<close> is the empty string for a value that is no string.\<close>

datatype Value = ValueStr string | ValueOther

fun Str :: "Value \<Rightarrow> string" where
  "Str (ValueStr s) = s"
| "Str ValueOther = []"

record pendingOp =
  op_key :: string
  op_ref :: Reference

text \<open>
  The function that \<open>processSpan\<close> passes to \<open>Range\<close>, for one attribute \<open>k\<close> with value
  \<open>v\<close>: the state is the remote side with the random source, the result the pending
  operation appended to \<open>ops\<close>, if any.  Errors of encryption and storage are logged
  and the attribute is skipped.
\<close>

definition processSpan_visit ::
  "'s transport \<Rightarrow> vaultProcessor \<Rightarrow> string \<Rightarrow> string \<Rightarrow> 's \<times> byte list \<Rightarrow> string \<Rightarrow> Value
     \<Rightarrow> pendingOp option outcome \<times> ('s \<times> byte list)" where
  "processSpan_visit env p traceID spanID state k v =
     (case state of (st, rnd) \<Rightarrow>
      if \<not> keySet p k then (Returned None, (st, rnd))
      else
       (let val = Str v in
        if int (length val) < SizeThreshold (cfg_Vault p) then (Returned None, (st, rnd))
        else
         (let data = bytes_of_string val;
              encrypted =
                (case envelope p of
                   None \<Rightarrow> (Returned (Inr data), rnd)
                 | Some e \<Rightarrow> Envelope_Encrypt e rnd data)
          in case encrypted of
               (Panicked pn, rnd') \<Rightarrow> (Panicked pn, (st, rnd'))
             | (Returned (Inl err), rnd') \<Rightarrow> (Returned None, (st, rnd'))
             | (Returned (Inr data'), rnd') \<Rightarrow>
                 (case S3Backend_Store env st (backend p) traceID spanID k data' of
                    (Inl err, st') \<Rightarrow> (Returned None, (st', rnd'))
                  | (Inr ref, st') \<Rightarrow>
                      (Returned (Some \<lparr>op_key = k,
                                       op_ref = (if envelope p \<noteq> None
                                                 then ref\<lparr>Encrypted := True\<rparr> else ref)\<rparr>),
                       (st', rnd'))))))"

text \<open>
  \<open>Range\<close> over the attributes of the span: the pending operations in the order of the
  attributes.  A panic ends the walk.
\<close>

fun processSpan_ops ::
  "'s transport \<Rightarrow> vaultProcessor \<Rightarrow> string \<Rightarrow> string \<Rightarrow> 's \<times> byte list
     \<Rightarrow> (string \<times> Value) list \<Rightarrow> pendingOp list outcome \<times> ('s \<times> byte list)" where
  "processSpan_ops env p traceID spanID state [] = (Returned [], state)"
| "processSpan_ops env p traceID spanID state ((k, v) # attrs) =
     (case processSpan_visit env p traceID spanID state k v of
        (Panicked pn, state') \<Rightarrow> (Panicked pn, state')
      | (Returned r, state') \<Rightarrow>
          (case processSpan_ops env p traceID spanID state' attrs of
             (Panicked pn, state'') \<Rightarrow> (Panicked pn, state'')
           | (Returned ops, state'') \<Rightarrow>
               (Returned ((case r of None \<Rightarrow> [] | Some op \<Rightarrow> [op]) @ ops), state'')))"

section \<open>Concrete inputs\<close>

text \<open>
  The key of the package's tests with the envelope it makes, and a nonce, for the
  concrete instances further down.
\<close>

definition testKey :: string where
  "testKey = ''0123456789abcdef0123456789abcdef0123456789abcdef0123456789abcdef''"

definition testEnvelope :: Envelope where
  "testEnvelope =
     \<lparr>key = [0x01, 0x23, 0x45, 0x67, 0x89, 0xab, 0xcd, 0xef, 0x01, 0x23, 0x45, 0x67, 0x89, 0xab, 0xcd, 0xef,
             0x01, 0x23, 0x45, 0x67, 0x89, 0xab, 0xcd, 0xef, 0x01, 0x23, 0x45, 0x67, 0x89, 0xab, 0xcd, 0xef],
      hmacSecret = bytes_of_string ''test-hmac-secret''\<rparr>"

definition testNonce :: "byte list" where
  "testNonce = [1, 2, 3, 4, 5, 6, 7, 8, 9, 10, 11, 12]"

text \<open>
  An object store with no objects, a backend, the data of the storage tests with the
  reference and the state that storing it gives.
\<close>

definition no_objects :: "string \<rightharpoonup> byte list" where
  "no_objects = Map.empty"

definition testBackend :: S3Backend where
  "testBackend =
     \<lparr>endpoint = ''localhost:9000'', bucket = ''bucket1'', prefix = ''pre/'',
      accessKey = [], secretKey = [], useSSL = False\<rparr>"

definition testData :: "byte list" where
  "testData = bytes_of_string ''original content''"

definition testReference :: Reference where
  "testReference =
     \<lparr>URI = ''promptvault://s3/bucket1/pre/trace1/span1/key1'',
      Checksum = hex_EncodeToString (sha256_Sum256 testData),
      Encrypted = False,
      SizeBytes = 16\<rparr>"

definition testStored :: "string \<rightharpoonup> byte list" where
  "testStored = no_objects(''http://localhost:9000/bucket1/pre/trace1/span1/key1'' \<mapsto> testData)"


text \<open>
  A processor with encryption enabled, and the ciphertext and the pending operation it
  makes of the attribute \<open>gen_ai.prompt\<close> with value \<open>hi\<close> when the random source delivers
  the bytes 1, ..., 12.
\<close>

definition testProcessor :: vaultProcessor where
  "testProcessor =
     \<lparr>cfg_Vault = \<lparr>Keys = [''gen_ai.prompt''], SizeThreshold = 0, Mode = ''replace_with_ref''\<rparr>,
      backend = testBackend,
      envelope = Some testEnvelope,
      keySet = keySet_of [''gen_ai.prompt'']\<rparr>"

definition testCiphertext :: "byte list" where
  "testCiphertext = testNonce @ gcm_sealed (AesCipher (key testEnvelope)) testNonce [104, 105]"

definition testOp :: pendingOp where
  "testOp =
     \<lparr>op_key = ''gen_ai.prompt'',
      op_ref = \<lparr>URI = ''promptvault://s3/bucket1/pre/0102030405060708090a0b0c0d0e0f10/0102030405060708/gen_ai.prompt'',
                Checksum = hex_EncodeToString (sha256_Sum256 testCiphertext),
                Encrypted = True,
                SizeBytes = 30\<rparr>\<rparr>"

section \<open>Facts about the library functions\<close>

subsection \<open>Constant-time comparison\<close>

lemma ctc_loop_same: "ctc_loop v x x = v"
  by (induction x arbitrary: v) simp_all

lemma ConstantTimeCompare_same: "ConstantTimeCompare x x = 1"
  by (simp add: ConstantTimeCompare_def ctc_loop_same ConstantTimeByteEq_def)

lemma ConstantTimeByteEq_zero: "ConstantTimeByteEq v 0 = 1 \<longleftrightarrow> v = 0"
proof (cases "v = 0")
  case True
  then show ?thesis by (simp add: ConstantTimeByteEq_def)
next
  case False
  have lt: "unat v < 256" using unsigned_less [of v, where ?'a = nat] by simp
  have pos: "0 < unat v" using False by (simp add: unat_gt_0)
  have uc: "unat (ucast v :: 32 word) = unat v"
    using lt by (simp add: unsigned_ucast_eq take_bit_nat_eq_self)
  have "(1 :: 32 word) \<le> ucast v"
    using pos uc by (simp add: word_le_nat_alt)
  then have "unat ((ucast v :: 32 word) - 1) = unat v - 1"
    using uc by (simp add: unat_sub)
  then have "drop_bit 31 (unat ((ucast v :: 32 word) - 1)) = 0"
    using lt by (simp add: drop_bit_eq_div)
  then have "unat (drop_bit 31 ((ucast v :: 32 word) - 1)) = 0"
    by (simp only: unat_drop_bit_eq)
  then have "drop_bit 31 ((ucast v :: 32 word) - 1) = 0"
    by (simp add: unat_eq_zero del: drop_bit_eq_zero_iff_not_bit_last)
  with False show ?thesis
    by (simp add: ConstantTimeByteEq_def del: drop_bit_eq_zero_iff_not_bit_last)
qed

lemma ctc_loop_zero:
  "length x = length y \<Longrightarrow> ctc_loop v x y = 0 \<longleftrightarrow> v = 0 \<and> x = y"
proof (induction x y arbitrary: v rule: list_induct2)
  case Nil
  then show ?case by simp
next
  case (Cons a x b y)
  have "v OR (a XOR b) = 0 \<longleftrightarrow> v = 0 \<and> a = b"
    by (metis bit.xor_left_self word_bw_same(3) or_eq_0_iff)
  with Cons show ?case by simp
qed

lemma ConstantTimeCompare_iff: "ConstantTimeCompare x y = 1 \<longleftrightarrow> x = y"
  by (auto simp: ConstantTimeCompare_def ConstantTimeByteEq_zero ctc_loop_zero)

subsection \<open>Hexadecimal decoding\<close>

lemma small_word_le: "m \<le> 15 \<Longrightarrow> (of_nat m :: byte) \<le> 0x0f"
  by (simp add: word_le_nat_alt unat_of_nat)

lemma reverseHexTable_digit: "reverseHexTable c \<le> 0x0f \<longleftrightarrow> is_hex_digit c"
proof -
  have a: "(of_nat (n - k) :: byte) \<le> 0x0f" if "n \<le> k + 15" for n k :: nat
    using that by (intro small_word_le) simp
  show ?thesis
    unfolding reverseHexTable_def is_hex_digit_def Let_def
    using a [of "of_char c" 48] a [of "of_char c" 55] a [of "of_char c" 87]
    by (auto simp del: of_nat_diff)
qed

lemma reverseHexTable_nondigit: "0x0f < reverseHexTable c \<longleftrightarrow> \<not> is_hex_digit c"
  using reverseHexTable_digit [of c] by (simp add: not_le [symmetric])

lemma hex_DecodeString_ok:
  "snd (hex_DecodeString s) = None \<longleftrightarrow> even (length s) \<and> list_all is_hex_digit s"
  by (induction s rule: hex_DecodeString.induct)
     (auto simp: Let_def reverseHexTable_nondigit split: prod.splits)

lemma hex_DecodeString_length:
  "snd (hex_DecodeString s) = None \<Longrightarrow> 2 * length (fst (hex_DecodeString s)) = length s"
  by (induction s rule: hex_DecodeString.induct)
     (auto simp: Let_def split: prod.splits if_splits)

subsection \<open>Galois/Counter Mode\<close>

lemma length_bytes_of_block: "length (bytes_of_block w) = 16"
  by (simp add: bytes_of_block_def)

lemma length_gcm_keystream: "length (gcm_keystream c cb n) = 16 * n"
  by (induction n arbitrary: cb) (simp_all add: length_bytes_of_block)

lemma length_xor_bytes: "length (xor_bytes xs ys) = min (length xs) (length ys)"
  by (simp add: xor_bytes_def)

lemma length_gcm_counterCrypt: "length (gcm_counterCrypt c cb d) = length d"
  by (simp add: gcm_counterCrypt_def length_xor_bytes length_gcm_keystream)

lemma xor_bytes_twice: "length d \<le> length ks \<Longrightarrow> xor_bytes (xor_bytes d ks) ks = d"
proof (induction d arbitrary: ks)
  case Nil
  then show ?case by (simp add: xor_bytes_def)
next
  case (Cons a d)
  then obtain k ks' where "ks = k # ks'" by (cases ks) auto
  with Cons show ?case by (simp add: xor_bytes_def xor.assoc)
qed

lemma gcm_counterCrypt_twice: "gcm_counterCrypt c cb (gcm_counterCrypt c cb d) = d"
proof -
  have "length d \<le> length (gcm_keystream c cb ((length d + 15) div 16))"
    by (simp add: length_gcm_keystream)
  then show ?thesis
    by (simp add: gcm_counterCrypt_def length_xor_bytes length_gcm_keystream xor_bytes_twice min_def)
qed

lemma length_gcm_auth: "length (gcm_auth c nonce ct) = 16"
  by (simp add: gcm_auth_def Let_def length_bytes_of_block)

lemma length_gcm_sealed: "length (gcm_sealed g nonce p) = length p + 16"
  by (simp add: gcm_sealed_def Let_def length_gcm_auth length_gcm_counterCrypt)

lemma gcm_Seal_Returned:
  "gcm_Seal g dst nonce p = Returned c \<Longrightarrow>
     length nonce = 12 \<and> int (length p) \<le> (2 ^ 32 - 2) * 16 \<and> c = dst @ gcm_sealed g nonce p"
  by (auto simp: gcm_Seal_def gcm_NonceSize_def gcmStandardNonceSize_def cipher_BlockSize_def
           split: if_splits)

lemma gcm_Open_sealed:
  assumes "length nonce = 12" and "int (length p) \<le> (2 ^ 32 - 2) * 16"
  shows "gcm_Open g nonce (gcm_sealed g nonce p) = Returned (Some p)"
  using assms
  by (simp add: gcm_Open_def gcm_sealed_def gcm_NonceSize_def gcmStandardNonceSize_def
        cipher_BlockSize_def gcmTagSize_def Let_def length_gcm_auth length_gcm_counterCrypt
        ConstantTimeCompare_same gcm_counterCrypt_twice)

lemma gcm_Open_Some:
  assumes "gcm_Open g nonce c = Returned (Some p)"
  shows "length nonce = 12 \<and> int (length p) \<le> (2 ^ 32 - 2) * 16 \<and> c = gcm_sealed g nonce p"
proof -
  define ct where "ct = take (length c - 16) c"
  define tag where "tag = drop (length c - 16) c"
  from assms have n: "length nonce = 12"
    and len: "16 \<le> length c" "int (length c) \<le> (2 ^ 32 - 2) * 16 + 16"
    and cmp: "ConstantTimeCompare (gcm_auth g nonce ct) tag = 1"
    and p: "p = gcm_counterCrypt g (inc32 (gcm_J0 nonce)) ct"
    by (auto simp: gcm_Open_def gcm_NonceSize_def gcmStandardNonceSize_def cipher_BlockSize_def
          gcmTagSize_def Let_def ct_def tag_def split: if_splits)
  from cmp have tag: "tag = gcm_auth g nonce ct"
    by (simp add: ConstantTimeCompare_iff)
  from p have ct: "gcm_counterCrypt g (inc32 (gcm_J0 nonce)) p = ct"
    by (simp add: gcm_counterCrypt_twice)
  have "length p = length c - 16"
    using p by (simp add: length_gcm_counterCrypt ct_def)
  with len have "int (length p) \<le> (2 ^ 32 - 2) * 16"
    by simp
  moreover have "c = ct @ tag"
    by (simp add: ct_def tag_def)
  then have "c = gcm_sealed g nonce p"
    using tag ct by (simp add: gcm_sealed_def)
  ultimately show ?thesis
    using n by simp
qed

lemma gcm_Open_not_Panicked: "length nonce = 12 \<Longrightarrow> gcm_Open g nonce c \<noteq> Panicked pn"
  by (simp add: gcm_Open_def gcm_NonceSize_def gcmStandardNonceSize_def Let_def)

section \<open>The envelope\<close>

lemma NewEnvelope_key_length: "NewEnvelope hexKey secret = Inr e \<Longrightarrow> length (key e) = 32"
  by (auto simp: NewEnvelope_def split: prod.splits option.splits if_splits)

lemma Envelope_Encrypt_Inr:
  "fst (Envelope_Encrypt e rnd p) = Returned (Inr c) \<longleftrightarrow>
     (length (key e) = 16 \<or> length (key e) = 24 \<or> length (key e) = 32) \<and>
     12 \<le> length rnd \<and> int (length p) \<le> (2 ^ 32 - 2) * 16 \<and>
     c = take 12 rnd @ gcm_sealed (AesCipher (key e)) (take 12 rnd) p"
  by (auto simp: Envelope_Encrypt_def aes_NewCipher_def cipher_NewGCM_def cipher_BlockSize_def
        io_ReadFull_def gcm_NonceSize_def gcmStandardNonceSize_def gcm_Seal_def
        split: sum.splits prod.splits option.splits outcome.splits if_splits)

lemma Envelope_Decrypt_Inr:
  "Envelope_Decrypt e blob = Returned (Inr p) \<longleftrightarrow>
     (length (key e) = 16 \<or> length (key e) = 24 \<or> length (key e) = 32) \<and>
     12 \<le> length blob \<and> int (length p) \<le> (2 ^ 32 - 2) * 16 \<and>
     drop 12 blob = gcm_sealed (AesCipher (key e)) (take 12 blob) p"
proof -
  have a: "gcm_Open g (take 12 blob) (drop 12 blob) = Returned (Some p) \<longleftrightarrow>
      int (length p) \<le> (2 ^ 32 - 2) * 16 \<and> drop 12 blob = gcm_sealed g (take 12 blob) p"
    if "12 \<le> length blob" for g
    using that gcm_Open_Some [of g "take 12 blob" "drop 12 blob" p]
      gcm_Open_sealed [of "take 12 blob" p g]
    by auto
  show ?thesis
    using a [of "AesCipher (key e)"]
    by (auto simp: Envelope_Decrypt_def aes_NewCipher_def cipher_NewGCM_def cipher_BlockSize_def
          gcm_NonceSize_def gcmStandardNonceSize_def Let_def
          split: sum.splits option.splits outcome.splits if_splits)
qed

lemma testKey_decodes: "NewEnvelope testKey ''test-hmac-secret'' = Inr testEnvelope"
  by (simp add: NewEnvelope_def testKey_def testEnvelope_def reverseHexTable_def)

text \<open>
  Claim C8.  Whenever \<open>Encrypt\<close> returns a ciphertext for a byte sequence, \<open>Decrypt\<close>
  of that ciphertext on the same envelope returns exactly the byte sequence.  This holds
  for every random source and every byte sequence, the non-empty ones among them.
\<close>

theorem Decrypt_Encrypt_roundtrip:
  "fst (Envelope_Encrypt e rnd b) = Returned (Inr c) \<Longrightarrow> Envelope_Decrypt e c = Returned (Inr b)"
  by (simp add: Envelope_Encrypt_Inr Envelope_Decrypt_Inr)

text \<open>
  An instance: the test envelope encrypts the two bytes of \<open>hi\<close> under the nonce
  1, ..., 12, and decrypts the result to the same two bytes.
\<close>

theorem Decrypt_Encrypt_roundtrip_witness:
  "fst (Envelope_Encrypt testEnvelope testNonce [104, 105])
     = Returned (Inr (testNonce @ gcm_sealed (AesCipher (key testEnvelope)) testNonce [104, 105]))
   \<and> Envelope_Decrypt testEnvelope
         (testNonce @ gcm_sealed (AesCipher (key testEnvelope)) testNonce [104, 105])
       = Returned (Inr [104, 105])"
proof -
  have enc: "fst (Envelope_Encrypt testEnvelope testNonce [104, 105])
     = Returned (Inr (testNonce @ gcm_sealed (AesCipher (key testEnvelope)) testNonce [104, 105]))"
    by (simp add: Envelope_Encrypt_def aes_NewCipher_def cipher_NewGCM_def cipher_BlockSize_def
          io_ReadFull_def gcm_NonceSize_def gcmStandardNonceSize_def gcm_Seal_def
          testEnvelope_def testNonce_def)
  from enc Decrypt_Encrypt_roundtrip [OF enc] show ?thesis by simp
qed

text \<open>
  Claim C10.  A ciphertext returned by \<open>Encrypt\<close> is 28 bytes longer than the
  plaintext: the 12 bytes of the nonce read from the random source, followed by what
  GCM seals, which is the plaintext's length plus the 16 bytes of the tag.
\<close>

theorem Encrypt_length:
  "fst (Envelope_Encrypt e rnd p) = Returned (Inr c) \<Longrightarrow>
     length c = length p + 28 \<and>
     take 12 c = take 12 rnd \<and> length (take 12 rnd) = 12 \<and>
     drop 12 c = gcm_sealed (AesCipher (key e)) (take 12 rnd) p \<and>
     length (drop 12 c) = length p + 16 \<and>
     take (length p) (drop 12 c)
       = gcm_counterCrypt (AesCipher (key e)) (inc32 (gcm_J0 (take 12 rnd))) p \<and>
     drop (length p) (drop 12 c)
       = gcm_auth (AesCipher (key e)) (take 12 rnd) (take (length p) (drop 12 c)) \<and>
     length (drop (length p) (drop 12 c)) = 16"
  by (auto simp: Envelope_Encrypt_Inr length_gcm_sealed gcm_sealed_def Let_def
        length_gcm_counterCrypt length_gcm_auth)

text \<open>
  An instance: two bytes of plaintext give 30 bytes.
\<close>

theorem Encrypt_length_witness:
  "fst (Envelope_Encrypt testEnvelope testNonce [104, 105])
     = Returned (Inr (testNonce @ gcm_sealed (AesCipher (key testEnvelope)) testNonce [104, 105]))
   \<and> length (testNonce @ gcm_sealed (AesCipher (key testEnvelope)) testNonce [104, 105]) = 30"
proof -
  have enc: "fst (Envelope_Encrypt testEnvelope testNonce [104, 105])
     = Returned (Inr (testNonce @ gcm_sealed (AesCipher (key testEnvelope)) testNonce [104, 105]))"
    by (simp add: Envelope_Encrypt_def aes_NewCipher_def cipher_NewGCM_def cipher_BlockSize_def
          io_ReadFull_def gcm_NonceSize_def gcmStandardNonceSize_def gcm_Seal_def
          testEnvelope_def testNonce_def)
  from enc Encrypt_length [OF enc] show ?thesis by simp
qed

text \<open>
  Claim C9.  For every envelope (so for every HMAC secret) and every text, the
  signature made by \<open>SignMetadata\<close> is accepted by \<open>VerifyMetadata\<close> for the same text.
\<close>

theorem VerifyMetadata_SignMetadata:
  "Envelope_VerifyMetadata e text (Envelope_SignMetadata e text)"
  by (simp add: Envelope_VerifyMetadata_def hmac_Equal_def ConstantTimeCompare_same)

text \<open>
  Claim C7.  \<open>NewEnvelope\<close> returns an error exactly when the hex string does not
  decode or decodes to a key that is not 32 bytes long; that is, exactly when the
  string is not made of 64 hexadecimal digits.  On a string of 64 hexadecimal digits
  it returns the envelope of the decoded key, whatever the HMAC secret.
\<close>

theorem NewEnvelope_fails_exactly:
  "(isl (NewEnvelope hexKey secret) \<longleftrightarrow>
      snd (hex_DecodeString hexKey) \<noteq> None \<or> length (fst (hex_DecodeString hexKey)) \<noteq> 32)
   \<and> (isl (NewEnvelope hexKey secret) \<longleftrightarrow>
        \<not> (length hexKey = 64 \<and> list_all is_hex_digit hexKey))
   \<and> (length hexKey = 64 \<and> list_all is_hex_digit hexKey \<longrightarrow>
        NewEnvelope hexKey secret
          = Inr \<lparr>key = fst (hex_DecodeString hexKey), hmacSecret = bytes_of_string secret\<rparr>
        \<and> length (fst (hex_DecodeString hexKey)) = 32)"
proof -
  obtain k err where d: "hex_DecodeString hexKey = (k, err)"
    by (cases "hex_DecodeString hexKey")
  have ok: "err = None \<longleftrightarrow> even (length hexKey) \<and> list_all is_hex_digit hexKey"
    using hex_DecodeString_ok [of hexKey] d by simp
  have len: "err = None \<Longrightarrow> 2 * length k = length hexKey"
    using hex_DecodeString_length [of hexKey] d by simp
  have iff: "err = None \<and> length k = 32 \<longleftrightarrow> length hexKey = 64 \<and> list_all is_hex_digit hexKey"
    using ok len by auto
  have new: "NewEnvelope hexKey secret =
      (if err = None \<and> length k = 32 then Inr \<lparr>key = k, hmacSecret = bytes_of_string secret\<rparr>
       else if err = None then Inl (KeyNot256Bits (length k))
       else Inl (InvalidHexKey (the err)))"
    using d by (auto simp: NewEnvelope_def split: option.splits)
  show ?thesis
    using iff by (auto simp: new d)
qed

text \<open>
  Instances: the 64 digits of the test key are accepted; a string of 16 digits and a
  string of 64 characters that are no digits are refused.
\<close>

theorem NewEnvelope_fails_exactly_witness:
  "length testKey = 64 \<and> list_all is_hex_digit testKey
   \<and> NewEnvelope testKey ''test-hmac-secret'' = Inr testEnvelope
   \<and> isl (NewEnvelope ''0123456789abcdef'' ''secret'')
   \<and> isl (NewEnvelope (replicate 64 (CHR ''g'')) ''secret'')"
proof -
  have a: "length testKey = 64 \<and> list_all is_hex_digit testKey"
    by (simp add: testKey_def is_hex_digit_def)
  have b: "\<not> (length ''0123456789abcdef'' = 64 \<and> list_all is_hex_digit ''0123456789abcdef'')"
    by simp
  have c: "\<not> (length (replicate 64 (CHR ''g'')) = 64
               \<and> list_all is_hex_digit (replicate 64 (CHR ''g'')))"
    by (simp add: is_hex_digit_def list_all_iff)
  have f1: "isl (NewEnvelope ''0123456789abcdef'' ''secret'')"
    using b NewEnvelope_fails_exactly [of "''0123456789abcdef''" "''secret''"] by blast
  have f2: "isl (NewEnvelope (replicate 64 (CHR ''g'')) ''secret'')"
    using c NewEnvelope_fails_exactly [of "replicate 64 (CHR ''g'')" "''secret''"] by blast
  have f3: "\<not> isl (NewEnvelope testKey ''test-hmac-secret'')"
    using a NewEnvelope_fails_exactly [of testKey "''test-hmac-secret''"] by blast
  from a f1 f2 f3 testKey_decodes show ?thesis by simp
qed

text \<open>
  Claim C6.  On an envelope made by \<open>NewEnvelope\<close>, \<open>Decrypt\<close> of a blob shorter than
  the 12 bytes of a nonce is the error \<open>ciphertext too short\<close>; on a longer blob the
  first 12 bytes are the nonce and the rest goes to \<open>Open\<close>: when \<open>Open\<close> refuses it
  the result is the error \<open>decryption failed\<close>, otherwise the plaintext \<open>Open\<close>
  returns.  \<open>Decrypt\<close> never panics and has no other result: it is one of the two
  errors, or a plaintext whose encryption under the blob's own nonce is the blob
  itself.  A blob too short to hold a nonce and a tag is always refused.
\<close>

theorem Decrypt_fails_closed:
  assumes "NewEnvelope hexKey secret = Inr e"
  shows "(length blob < 12 \<longrightarrow> Envelope_Decrypt e blob = Returned (Inl CiphertextTooShort))
   \<and> (12 \<le> length blob \<longrightarrow>
        gcm_Open (AesCipher (key e)) (take 12 blob) (drop 12 blob) = Returned None \<longrightarrow>
        Envelope_Decrypt e blob = Returned (Inl DecryptionFailed))
   \<and> (12 \<le> length blob \<longrightarrow>
        gcm_Open (AesCipher (key e)) (take 12 blob) (drop 12 blob) = Returned (Some p) \<longrightarrow>
        Envelope_Decrypt e blob = Returned (Inr p))
   \<and> (Envelope_Decrypt e blob = Returned (Inl CiphertextTooShort)
        \<or> Envelope_Decrypt e blob = Returned (Inl DecryptionFailed)
        \<or> (\<exists>q. Envelope_Decrypt e blob = Returned (Inr q)
                \<and> fst (Envelope_Encrypt e (take 12 blob) q) = Returned (Inr blob)))
   \<and> (length blob < 28 \<longrightarrow> (\<exists>err. Envelope_Decrypt e blob = Returned (Inl err)))"
proof -
  have k: "length (key e) = 32"
    using assms by (rule NewEnvelope_key_length)
  have dec: "Envelope_Decrypt e blob =
      (if length blob < 12 then Returned (Inl CiphertextTooShort)
       else case gcm_Open (AesCipher (key e)) (take 12 blob) (drop 12 blob) of
              Panicked pn \<Rightarrow> Panicked pn
            | Returned None \<Rightarrow> Returned (Inl DecryptionFailed)
            | Returned (Some q) \<Rightarrow> Returned (Inr q))"
    using k by (simp add: Envelope_Decrypt_def aes_NewCipher_def cipher_NewGCM_def
          cipher_BlockSize_def gcm_NonceSize_def gcmStandardNonceSize_def Let_def)
  have nopanic: "gcm_Open (AesCipher (key e)) (take 12 blob) (drop 12 blob) \<noteq> Panicked pn"
    if "12 \<le> length blob" for pn
    using that by (intro gcm_Open_not_Panicked) simp
  have short: "gcm_Open (AesCipher (key e)) (take 12 blob) (drop 12 blob) = Returned None"
    if "12 \<le> length blob" "length blob < 28"
    using that by (auto simp: gcm_Open_def gcm_NonceSize_def gcmStandardNonceSize_def gcmTagSize_def)
  have re: "fst (Envelope_Encrypt e (take 12 blob) q) = Returned (Inr blob)"
    if "Envelope_Decrypt e blob = Returned (Inr q)" for q
  proof -
    from that have "12 \<le> length blob" "int (length q) \<le> (2 ^ 32 - 2) * 16"
      "drop 12 blob = gcm_sealed (AesCipher (key e)) (take 12 blob) q"
      by (simp_all add: Envelope_Decrypt_Inr)
    moreover from this have "blob = take 12 blob @ gcm_sealed (AesCipher (key e)) (take 12 blob) q"
      by (metis append_take_drop_id)
    ultimately show ?thesis
      using k by (simp add: Envelope_Encrypt_Inr)
  qed
  have c1: "length blob < 12 \<longrightarrow> Envelope_Decrypt e blob = Returned (Inl CiphertextTooShort)"
    by (simp add: dec)
  have c2: "12 \<le> length blob \<longrightarrow>
        gcm_Open (AesCipher (key e)) (take 12 blob) (drop 12 blob) = Returned None \<longrightarrow>
        Envelope_Decrypt e blob = Returned (Inl DecryptionFailed)"
    by (simp add: dec)
  have c3: "12 \<le> length blob \<longrightarrow>
        gcm_Open (AesCipher (key e)) (take 12 blob) (drop 12 blob) = Returned (Some p) \<longrightarrow>
        Envelope_Decrypt e blob = Returned (Inr p)"
    by (simp add: dec)
  have c4: "Envelope_Decrypt e blob = Returned (Inl CiphertextTooShort)
        \<or> Envelope_Decrypt e blob = Returned (Inl DecryptionFailed)
        \<or> (\<exists>q. Envelope_Decrypt e blob = Returned (Inr q)
                \<and> fst (Envelope_Encrypt e (take 12 blob) q) = Returned (Inr blob))"
  proof (cases "length blob < 12")
    case True
    then show ?thesis by (simp add: dec)
  next
    case False
    then have l: "12 \<le> length blob" by simp
    show ?thesis
    proof (cases "gcm_Open (AesCipher (key e)) (take 12 blob) (drop 12 blob)")
      case (Panicked pn)
      with nopanic [OF l, of pn] show ?thesis by simp
    next
      case (Returned r)
      show ?thesis
      proof (cases r)
        case None
        with Returned False show ?thesis by (simp add: dec)
      next
        case (Some q)
        with Returned False have "Envelope_Decrypt e blob = Returned (Inr q)"
          by (simp add: dec)
        with re [of q] show ?thesis by blast
      qed
    qed
  qed
  have c5: "length blob < 28 \<longrightarrow> (\<exists>err. Envelope_Decrypt e blob = Returned (Inl err))"
    using short by (auto simp: dec)
  from c1 c2 c3 c4 c5 show ?thesis by blast
qed

text \<open>
  Instances: 11 bytes are too short, a nonce followed by 3 bytes fails to decrypt, and
  a sealed message decrypts.
\<close>

theorem Decrypt_fails_closed_witness:
  "NewEnvelope testKey ''test-hmac-secret'' = Inr testEnvelope
   \<and> Envelope_Decrypt testEnvelope [0, 0, 0, 0, 0, 0, 0, 0, 0, 0, 0] = Returned (Inl CiphertextTooShort)
   \<and> Envelope_Decrypt testEnvelope (testNonce @ [0, 0, 0]) = Returned (Inl DecryptionFailed)
   \<and> Envelope_Decrypt testEnvelope
        (testNonce @ gcm_sealed (AesCipher (key testEnvelope)) testNonce [104, 105])
       = Returned (Inr [104, 105])"
proof -
  have n: "length testNonce = 12" by (simp add: testNonce_def)
  have o1: "gcm_Open (AesCipher (key testEnvelope)) testNonce [0, 0, 0] = Returned None"
    by (simp add: gcm_Open_def gcm_NonceSize_def gcmStandardNonceSize_def gcmTagSize_def n)
  have o2: "gcm_Open (AesCipher (key testEnvelope)) testNonce
              (gcm_sealed (AesCipher (key testEnvelope)) testNonce [104, 105])
            = Returned (Some [104, 105])"
    by (rule gcm_Open_sealed) (simp_all add: n)
  show ?thesis
    using testKey_decodes n o1 o2
      Decrypt_fails_closed [OF testKey_decodes, of "[0, 0, 0, 0, 0, 0, 0, 0, 0, 0, 0]"]
      Decrypt_fails_closed [OF testKey_decodes, of "testNonce @ [0, 0, 0]"]
      Decrypt_fails_closed [OF testKey_decodes,
        of "testNonce @ gcm_sealed (AesCipher (key testEnvelope)) testNonce [104, 105]" "[104, 105]"]
    by (simp add: length_gcm_sealed)
qed

section \<open>The S3 backend\<close>

lemma Store_result:
  fixes env :: "'s transport"
  defines "req s traceID spanID attrKey data \<equiv>
             \<lparr>Method = MethodPut, URL = put_url s traceID spanID attrKey,
              Header = [(''Content-Type'', ''application/octet-stream'')],
              ContentLength = int (length data), RequestBody = data\<rparr>"
  shows "parse_error env (put_url s traceID spanID attrKey) = Some err \<Longrightarrow>
           S3Backend_Store env st s traceID spanID attrKey data = (Inl (CreateRequestFailed err), st)"
    and "parse_error env (put_url s traceID spanID attrKey) = None \<Longrightarrow>
         Do env st (req s traceID spanID attrKey data) = (Inl err, st') \<Longrightarrow>
           S3Backend_Store env st s traceID spanID attrKey data = (Inl (PutFailed err), st')"
    and "parse_error env (put_url s traceID spanID attrKey) = None \<Longrightarrow>
         Do env st (req s traceID spanID attrKey data) = (Inr resp, st') \<Longrightarrow>
         300 \<le> StatusCode resp \<Longrightarrow>
           S3Backend_Store env st s traceID spanID attrKey data
             = (Inl (PutStatus (StatusCode resp) (string_of_bytes (Body resp))), st')"
    and "parse_error env (put_url s traceID spanID attrKey) = None \<Longrightarrow>
         Do env st (req s traceID spanID attrKey data) = (Inr resp, st') \<Longrightarrow>
         StatusCode resp < 300 \<Longrightarrow>
           S3Backend_Store env st s traceID spanID attrKey data
             = (Inr \<lparr>URI = ''promptvault://s3/'' @ bucket s @ ''/''
                              @ (prefix s @ traceID @ ''/'' @ spanID @ ''/'' @ attrKey),
                       Checksum = hex_EncodeToString (sha256_Sum256 data),
                       Encrypted = False,
                       SizeBytes = int (length data)\<rparr>, st')"
  unfolding req_def
  by (simp_all add: S3Backend_Store_def http_NewRequestWithContext_def io_ReadAll_def put_url_def
        Let_def)


lemma Store_Inr:
  assumes "S3Backend_Store env st s traceID spanID attrKey data = (Inr ref, st')"
  shows "ref = \<lparr>URI = ''promptvault://s3/'' @ bucket s @ ''/''
                       @ (prefix s @ traceID @ ''/'' @ spanID @ ''/'' @ attrKey),
                Checksum = hex_EncodeToString (sha256_Sum256 data),
                Encrypted = False,
                SizeBytes = int (length data)\<rparr>"
    and "parse_error env (put_url s traceID spanID attrKey) = None"
    and "\<exists>resp. Do env st \<lparr>Method = MethodPut, URL = put_url s traceID spanID attrKey,
                           Header = [(''Content-Type'', ''application/octet-stream'')],
                           ContentLength = int (length data), RequestBody = data\<rparr>
                  = (Inr resp, st') \<and> StatusCode resp < 300"
proof -
  let ?req = "\<lparr>Method = MethodPut, URL = put_url s traceID spanID attrKey,
                Header = [(''Content-Type'', ''application/octet-stream'')],
                ContentLength = int (length data), RequestBody = data\<rparr>"
  show p: "parse_error env (put_url s traceID spanID attrKey) = None"
  proof (cases "parse_error env (put_url s traceID spanID attrKey)")
    case (Some err)
    from Store_result(1) [OF this] assms show ?thesis by simp
  qed simp
  obtain r st1 where d: "Do env st ?req = (r, st1)"
    by (cases "Do env st ?req")
  show "ref = \<lparr>URI = ''promptvault://s3/'' @ bucket s @ ''/''
                       @ (prefix s @ traceID @ ''/'' @ spanID @ ''/'' @ attrKey),
                Checksum = hex_EncodeToString (sha256_Sum256 data),
                Encrypted = False,
                SizeBytes = int (length data)\<rparr>"
    and "\<exists>resp. Do env st ?req = (Inr resp, st') \<and> StatusCode resp < 300"
  proof -
    have "ref = \<lparr>URI = ''promptvault://s3/'' @ bucket s @ ''/''
                       @ (prefix s @ traceID @ ''/'' @ spanID @ ''/'' @ attrKey),
                Checksum = hex_EncodeToString (sha256_Sum256 data),
                Encrypted = False,
                SizeBytes = int (length data)\<rparr>
          \<and> (\<exists>resp. Do env st ?req = (Inr resp, st') \<and> StatusCode resp < 300)"
    proof (cases r)
      case (Inl err)
      with d have "Do env st ?req = (Inl err, st1)" by simp
      from Store_result(2) [OF p this] assms show ?thesis by simp
    next
      case (Inr resp)
      show ?thesis
      proof (cases "300 \<le> StatusCode resp")
        case True
        from d Inr have "Do env st ?req = (Inr resp, st1)" by simp
        from Store_result(3) [OF p this True] assms show ?thesis by simp
      next
        case False
        then have lt: "StatusCode resp < 300" by simp
        from d Inr have dr: "Do env st ?req = (Inr resp, st1)" by simp
        from Store_result(4) [OF p dr lt] assms dr lt show ?thesis by auto
      qed
    qed
    then show "ref = \<lparr>URI = ''promptvault://s3/'' @ bucket s @ ''/''
                       @ (prefix s @ traceID @ ''/'' @ spanID @ ''/'' @ attrKey),
                Checksum = hex_EncodeToString (sha256_Sum256 data),
                Encrypted = False,
                SizeBytes = int (length data)\<rparr>"
      and "\<exists>resp. Do env st ?req = (Inr resp, st') \<and> StatusCode resp < 300"
      by blast+
  qed
qed

lemma scheme_length: "length ''promptvault://s3/'' = 17"
  by simp

lemma Retrieve_result:
  fixes env :: "'s transport"
  shows "length (URI ref) < 17 \<Longrightarrow>
           S3Backend_Retrieve env st s ref = (Panicked SliceBoundsOutOfRange, st)"
    and "17 \<le> length (URI ref) \<Longrightarrow> parse_error env (get_url s ref) = Some err \<Longrightarrow>
           S3Backend_Retrieve env st s ref = (Returned (Inl (CreateRequestFailed err)), st)"
    and "17 \<le> length (URI ref) \<Longrightarrow> parse_error env (get_url s ref) = None \<Longrightarrow>
         Do env st (get_request s ref) = (Inl err, st') \<Longrightarrow>
           S3Backend_Retrieve env st s ref = (Returned (Inl (GetFailed err)), st')"
    and "17 \<le> length (URI ref) \<Longrightarrow> parse_error env (get_url s ref) = None \<Longrightarrow>
         Do env st (get_request s ref) = (Inr resp, st') \<Longrightarrow> 300 \<le> StatusCode resp \<Longrightarrow>
           S3Backend_Retrieve env st s ref
             = (Returned (Inl (GetStatus (StatusCode resp) (string_of_bytes (Body resp)))), st')"
    and "17 \<le> length (URI ref) \<Longrightarrow> parse_error env (get_url s ref) = None \<Longrightarrow>
         Do env st (get_request s ref) = (Inr resp, st') \<Longrightarrow> StatusCode resp < 300 \<Longrightarrow>
         BodyErr resp = Some err \<Longrightarrow>
           S3Backend_Retrieve env st s ref = (Returned (Inl (ReadResponseFailed err)), st')"
    and "17 \<le> length (URI ref) \<Longrightarrow> parse_error env (get_url s ref) = None \<Longrightarrow>
         Do env st (get_request s ref) = (Inr resp, st') \<Longrightarrow> StatusCode resp < 300 \<Longrightarrow>
         BodyErr resp = None \<Longrightarrow>
           S3Backend_Retrieve env st s ref
             = (if hex_EncodeToString (sha256_Sum256 (Body resp)) \<noteq> Checksum ref
                then Returned (Inl (ChecksumMismatch (Checksum ref)
                        (hex_EncodeToString (sha256_Sum256 (Body resp)))))
                else Returned (Inr (Body resp)), st')"
  unfolding S3Backend_Retrieve_def scheme_length
  by (simp_all add: http_NewRequestWithContext_def io_ReadAll_def
        get_url_def get_request_def Let_def)

lemma length_hex_EncodeToString: "length (hex_EncodeToString bs) = 2 * length bs"
  by (induction bs) simp_all

lemma length_sha256_Sum256: "length (sha256_Sum256 m) = 32"
  unfolding sha256_Sum256_def
  by (simp add: bytes_of_be32_def split: prod.split)

lemma testStore:
  "S3Backend_Store object_store no_objects testBackend ''trace1'' ''span1'' ''key1'' testData
     = (Inr testReference, testStored)"
  by (simp add: S3Backend_Store_def http_NewRequestWithContext_def object_store_def
        object_store_Do_def testBackend_def testReference_def testStored_def testData_def
        bytes_of_string_def Let_def)

lemma Retrieve_Inr:
  assumes "fst (S3Backend_Retrieve env st s ref) = Returned (Inr d)"
  shows "17 \<le> length (URI ref) \<and> parse_error env (get_url s ref) = None
     \<and> (\<exists>resp st'. Do env st (get_request s ref) = (Inr resp, st') \<and> StatusCode resp < 300
            \<and> BodyErr resp = None \<and> Body resp = d)
     \<and> hex_EncodeToString (sha256_Sum256 d) = Checksum ref"
proof -
  have l: "17 \<le> length (URI ref)"
    using assms Retrieve_result(1) [of ref env st s] by (cases "length (URI ref) < 17") simp_all
  have p: "parse_error env (get_url s ref) = None"
  proof (cases "parse_error env (get_url s ref)")
    case (Some err)
    from Retrieve_result(2) [OF l this] assms show ?thesis by simp
  qed simp
  obtain r st1 where d: "Do env st (get_request s ref) = (r, st1)"
    by (cases "Do env st (get_request s ref)")
  show ?thesis
  proof (cases r)
    case (Inl err)
    with d have "Do env st (get_request s ref) = (Inl err, st1)" by simp
    from Retrieve_result(3) [OF l p this] assms show ?thesis by simp
  next
    case (Inr resp)
    with d have dr: "Do env st (get_request s ref) = (Inr resp, st1)" by simp
    show ?thesis
    proof (cases "300 \<le> StatusCode resp")
      case True
      from Retrieve_result(4) [OF l p dr True] assms show ?thesis by simp
    next
      case False
      then have lt: "StatusCode resp < 300" by simp
      show ?thesis
      proof (cases "BodyErr resp")
        case (Some err)
        from Retrieve_result(5) [OF l p dr lt Some] assms show ?thesis by simp
      next
        case None
        from Retrieve_result(6) [OF l p dr lt None] assms l p dr lt None
        show ?thesis by (auto split: if_splits)
      qed
    qed
  qed
qed

lemma Retrieve_Returned:
  assumes "17 \<le> length (URI ref)"
  shows "\<exists>r. fst (S3Backend_Retrieve env st s ref) = Returned r"
proof (cases "parse_error env (get_url s ref)")
  case (Some err)
  from Retrieve_result(2) [OF assms this] show ?thesis by simp
next
  case None
  note p = this
  obtain r st1 where d: "Do env st (get_request s ref) = (r, st1)"
    by (cases "Do env st (get_request s ref)")
  show ?thesis
  proof (cases r)
    case (Inl err)
    with d have "Do env st (get_request s ref) = (Inl err, st1)" by simp
    from Retrieve_result(3) [OF assms p this] show ?thesis by simp
  next
    case (Inr resp)
    with d have dr: "Do env st (get_request s ref) = (Inr resp, st1)" by simp
    show ?thesis
    proof (cases "300 \<le> StatusCode resp")
      case True
      from Retrieve_result(4) [OF assms p dr True] show ?thesis by simp
    next
      case False
      then have lt: "StatusCode resp < 300" by simp
      show ?thesis
      proof (cases "BodyErr resp")
        case (Some err)
        from Retrieve_result(5) [OF assms p dr lt Some] show ?thesis by simp
      next
        case None
        from Retrieve_result(6) [OF assms p dr lt None] show ?thesis by simp
      qed
    qed
  qed
qed

text \<open>
  Claim C3, as amended.  The URI of the reference that a successful \<open>Store\<close> returns is
  \<open>promptvault://s3/\<close>, the bucket, a slash and the key, the key being the prefix
  followed by trace identifier, span identifier and attribute key with slashes between
  them.  The scheme token is \<open>promptvault\<close>.
\<close>

theorem Store_uri:
  "S3Backend_Store env st s traceID spanID attrKey data = (Inr ref, st') \<Longrightarrow>
     URI ref = ''promptvault://s3/'' @ bucket s @ ''/''
                 @ (prefix s @ traceID @ ''/'' @ spanID @ ''/'' @ attrKey)"
  by (drule Store_Inr(1)) simp

text \<open>
  An instance: storing the test data in the empty object store.
\<close>

theorem Store_uri_witness:
  "S3Backend_Store object_store no_objects testBackend ''trace1'' ''span1'' ''key1'' testData
     = (Inr testReference, testStored)
   \<and> URI testReference = ''promptvault://s3/bucket1/pre/trace1/span1/key1''"
  using testStore Store_uri [OF testStore]
  by (simp add: testBackend_def)

text \<open>
  Claim C3 as stated fails: for bucket \<open>bucket1\<close> and prefix \<open>pre/\<close> the URI returned
  is not \<open>vault://s3/\<close> followed by bucket and key.
\<close>

theorem Store_uri_counterexample:
  "fst (S3Backend_Store object_store no_objects testBackend ''trace1'' ''span1'' ''key1'' testData)
     = Inr testReference
   \<and> URI testReference \<noteq> ''vault://s3/'' @ ''bucket1'' @ ''/'' @ (''pre/'' @ ''trace1'' @ ''/'' @ ''span1'' @ ''/'' @ ''key1'')
   \<and> bucket testBackend = ''bucket1'' \<and> prefix testBackend = ''pre/''"
proof -
  have "URI testReference \<noteq> ''vault://s3/'' @ ''bucket1'' @ ''/'' @ (''pre/'' @ ''trace1'' @ ''/'' @ ''span1'' @ ''/'' @ ''key1'')"
    by (simp add: testReference_def)
  moreover have "bucket testBackend = ''bucket1'' \<and> prefix testBackend = ''pre/''"
    by (simp add: testBackend_def)
  ultimately show ?thesis
    using testStore by simp
qed

text \<open>
  Claim C5.  Bytes that \<open>Retrieve\<close> returns are the body of the response to its GET,
  and their SHA-256 digest in hexadecimal is the checksum of the reference.  When the
  GET succeeds with status below 300 and the body is read without error, the result is
  decided by the comparison alone: the body when its digest equals the checksum, and
  otherwise a checksum-mismatch error, which carries no data.
\<close>

theorem Retrieve_checksum_verification:
  "(fst (S3Backend_Retrieve env st s ref) = Returned (Inr d) \<longrightarrow>
      hex_EncodeToString (sha256_Sum256 d) = Checksum ref
      \<and> (\<exists>resp. fst (Do env st (get_request s ref)) = Inr resp \<and> Body resp = d))
   \<and> (17 \<le> length (URI ref) \<longrightarrow> parse_error env (get_url s ref) = None \<longrightarrow>
      Do env st (get_request s ref) = (Inr resp, st') \<longrightarrow>
      StatusCode resp < 300 \<longrightarrow> BodyErr resp = None \<longrightarrow>
        S3Backend_Retrieve env st s ref =
          (if hex_EncodeToString (sha256_Sum256 (Body resp)) = Checksum ref
           then Returned (Inr (Body resp))
           else Returned (Inl (ChecksumMismatch (Checksum ref)
                  (hex_EncodeToString (sha256_Sum256 (Body resp))))), st'))"
proof -
  have a: "fst (S3Backend_Retrieve env st s ref) = Returned (Inr d) \<longrightarrow>
      hex_EncodeToString (sha256_Sum256 d) = Checksum ref
      \<and> (\<exists>resp. fst (Do env st (get_request s ref)) = Inr resp \<and> Body resp = d)"
    using Retrieve_Inr [of env st s ref d] by auto
  have b: "17 \<le> length (URI ref) \<longrightarrow> parse_error env (get_url s ref) = None \<longrightarrow>
      Do env st (get_request s ref) = (Inr resp, st') \<longrightarrow>
      StatusCode resp < 300 \<longrightarrow> BodyErr resp = None \<longrightarrow>
        S3Backend_Retrieve env st s ref =
          (if hex_EncodeToString (sha256_Sum256 (Body resp)) = Checksum ref
           then Returned (Inr (Body resp))
           else Returned (Inl (ChecksumMismatch (Checksum ref)
                  (hex_EncodeToString (sha256_Sum256 (Body resp))))), st')"
    using Retrieve_result(6) [of ref env s st resp st'] by simp
  from a b show ?thesis by blast
qed

lemma testRetrieve:
  "S3Backend_Retrieve object_store testStored testBackend testReference
     = (Returned (Inr testData), testStored)"
  unfolding S3Backend_Retrieve_def scheme_length
  by (simp add: http_NewRequestWithContext_def io_ReadAll_def object_store_def
        object_store_Do_def testBackend_def testReference_def testStored_def Let_def)

text \<open>
  Instances: the stored test data are returned for their reference, and refused when
  the checksum of the reference is replaced by \<open>deadbeef\<close>.
\<close>

theorem Retrieve_checksum_verification_witness:
  "fst (S3Backend_Retrieve object_store testStored testBackend testReference)
     = Returned (Inr testData)
   \<and> hex_EncodeToString (sha256_Sum256 testData) = Checksum testReference
   \<and> S3Backend_Retrieve object_store testStored testBackend
         (testReference\<lparr>Checksum := ''deadbeef''\<rparr>)
       = (Returned (Inl (ChecksumMismatch ''deadbeef''
                          (hex_EncodeToString (sha256_Sum256 testData)))), testStored)"
proof -
  have r: "fst (S3Backend_Retrieve object_store testStored testBackend testReference)
     = Returned (Inr testData)"
    by (simp add: testRetrieve)
  have l: "17 \<le> length (URI (testReference\<lparr>Checksum := ''deadbeef''\<rparr>))"
    by (simp add: testReference_def)
  have p: "parse_error object_store
             (get_url testBackend (testReference\<lparr>Checksum := ''deadbeef''\<rparr>)) = None"
    by (simp add: object_store_def)
  have d: "Do object_store testStored
             (get_request testBackend (testReference\<lparr>Checksum := ''deadbeef''\<rparr>))
           = (Inr \<lparr>StatusCode = 200, Body = testData, BodyErr = None\<rparr>, testStored)"
    by (simp add: object_store_def object_store_Do_def get_request_def get_url_def
          testBackend_def testReference_def testStored_def)
  have ne: "hex_EncodeToString (sha256_Sum256 testData) \<noteq> ''deadbeef''"
    using length_hex_EncodeToString [of "sha256_Sum256 testData"] length_sha256_Sum256 [of testData]
    by auto
  from Retrieve_checksum_verification [of object_store testStored testBackend testReference testData]
    r
  have c: "hex_EncodeToString (sha256_Sum256 testData) = Checksum testReference"
    by blast
  from Retrieve_checksum_verification
         [of object_store testStored testBackend "testReference\<lparr>Checksum := ''deadbeef''\<rparr>"
             _ "\<lparr>StatusCode = 200, Body = testData, BodyErr = None\<rparr>" testStored]
       l p d ne
  have m: "S3Backend_Retrieve object_store testStored testBackend
         (testReference\<lparr>Checksum := ''deadbeef''\<rparr>)
       = (Returned (Inl (ChecksumMismatch ''deadbeef''
                          (hex_EncodeToString (sha256_Sum256 testData)))), testStored)"
    by simp
  from r c m show ?thesis by simp
qed

lemma get_after_put:
  assumes "URI ref = ''promptvault://s3/'' @ bucket s @ ''/''
                 @ (prefix s @ traceID @ ''/'' @ spanID @ ''/'' @ attrKey)"
  shows "get_url s ref = put_url s traceID spanID attrKey"
  using assms by (simp add: get_url_def put_url_def)

text \<open>
  Claim C4, as amended.  Let \<open>Store\<close> succeed against an object store and return a
  reference, and let \<open>Retrieve\<close> run against the state that \<open>Store\<close> left.  The reference
  itself retrieves the data.  With the checksum replaced by any other value,
  \<open>Retrieve\<close> returns a checksum-mismatch error and no data.  With the URI replaced by
  any value of at least 17 bytes, \<open>Retrieve\<close> does not panic, and bytes it returns have
  the digest that the reference's checksum names.
\<close>

theorem Retrieve_mutated_reference:
  assumes "Do env = object_store_Do"
    and "S3Backend_Store env st s traceID spanID attrKey data = (Inr ref, st')"
  shows "fst (S3Backend_Retrieve env st' s ref) = Returned (Inr data)
   \<and> (c \<noteq> Checksum ref \<longrightarrow>
        fst (S3Backend_Retrieve env st' s (ref\<lparr>Checksum := c\<rparr>))
          = Returned (Inl (ChecksumMismatch c (Checksum ref))))
   \<and> (17 \<le> length u \<longrightarrow>
        (\<exists>r. fst (S3Backend_Retrieve env st' s (ref\<lparr>URI := u\<rparr>)) = Returned r
           \<and> (\<forall>d. r = Inr d \<longrightarrow> hex_EncodeToString (sha256_Sum256 d) = Checksum ref)))"
proof -
  note st = Store_Inr [OF assms(2)]
  have uri: "URI ref = ''promptvault://s3/'' @ bucket s @ ''/''
                 @ (prefix s @ traceID @ ''/'' @ spanID @ ''/'' @ attrKey)"
    and sum: "Checksum ref = hex_EncodeToString (sha256_Sum256 data)"
    using st(1) by simp_all
  have st': "st' = st(put_url s traceID spanID attrKey \<mapsto> data)"
    using st(3) by (auto simp: assms(1) object_store_Do_def)
  have l: "17 \<le> length (URI (ref\<lparr>Checksum := c'\<rparr>))" for c'
    by (simp add: uri)
  have url: "get_url s (ref\<lparr>Checksum := c'\<rparr>) = put_url s traceID spanID attrKey" for c'
    by (rule get_after_put) (simp add: uri)
  have p: "parse_error env (get_url s (ref\<lparr>Checksum := c'\<rparr>)) = None" for c'
    using st(2) by (simp add: url)
  have d: "Do env st' (get_request s (ref\<lparr>Checksum := c'\<rparr>))
             = (Inr \<lparr>StatusCode = 200, Body = data, BodyErr = None\<rparr>, st')" for c'
    by (simp add: assms(1) object_store_Do_def get_request_def url st')
  have res: "S3Backend_Retrieve env st' s (ref\<lparr>Checksum := c'\<rparr>)
      = (if hex_EncodeToString (sha256_Sum256 data) \<noteq> c'
         then Returned (Inl (ChecksumMismatch c' (hex_EncodeToString (sha256_Sum256 data))))
         else Returned (Inr data), st')" for c'
    using Retrieve_result(6) [OF l [of c'] p [of c'] d [of c']] by simp
  have c1: "fst (S3Backend_Retrieve env st' s ref) = Returned (Inr data)"
  proof -
    have "ref\<lparr>Checksum := Checksum ref\<rparr> = ref"
      by simp
    with res [of "Checksum ref"]
    have "S3Backend_Retrieve env st' s ref
      = (if hex_EncodeToString (sha256_Sum256 data) \<noteq> Checksum ref
         then Returned (Inl (ChecksumMismatch (Checksum ref)
                 (hex_EncodeToString (sha256_Sum256 data))))
         else Returned (Inr data), st')"
      by (simp only:)
    then show ?thesis
      by (simp add: sum)
  qed
  have c2: "c \<noteq> Checksum ref \<longrightarrow>
        fst (S3Backend_Retrieve env st' s (ref\<lparr>Checksum := c\<rparr>))
          = Returned (Inl (ChecksumMismatch c (Checksum ref)))"
    using res [of c] by (auto simp: sum)
  have c3: "17 \<le> length u \<longrightarrow>
        (\<exists>r. fst (S3Backend_Retrieve env st' s (ref\<lparr>URI := u\<rparr>)) = Returned r
           \<and> (\<forall>d. r = Inr d \<longrightarrow> hex_EncodeToString (sha256_Sum256 d) = Checksum ref))"
  proof
    assume "17 \<le> length u"
    then have "17 \<le> length (URI (ref\<lparr>URI := u\<rparr>))" by simp
    from Retrieve_Returned [OF this, of env st' s]
    obtain r where r: "fst (S3Backend_Retrieve env st' s (ref\<lparr>URI := u\<rparr>)) = Returned r"
      by blast
    have "hex_EncodeToString (sha256_Sum256 d) = Checksum ref" if "r = Inr d" for d
      using Retrieve_Inr [of env st' s "ref\<lparr>URI := u\<rparr>" d] r that by simp
    with r show "\<exists>r. fst (S3Backend_Retrieve env st' s (ref\<lparr>URI := u\<rparr>)) = Returned r
           \<and> (\<forall>d. r = Inr d \<longrightarrow> hex_EncodeToString (sha256_Sum256 d) = Checksum ref)"
      by blast
  qed
  from c1 c2 c3 show ?thesis by blast
qed

text \<open>
  An instance: the reference of the test data, with \<open>deadbeef\<close> for a checksum.
\<close>

theorem Retrieve_mutated_reference_witness:
  "Do object_store = object_store_Do
   \<and> S3Backend_Store object_store no_objects testBackend ''trace1'' ''span1'' ''key1'' testData
       = (Inr testReference, testStored)
   \<and> fst (S3Backend_Retrieve object_store testStored testBackend testReference)
       = Returned (Inr testData)
   \<and> ''deadbeef'' \<noteq> Checksum testReference
   \<and> fst (S3Backend_Retrieve object_store testStored testBackend
             (testReference\<lparr>Checksum := ''deadbeef''\<rparr>))
       = Returned (Inl (ChecksumMismatch ''deadbeef'' (Checksum testReference)))"
proof -
  have a: "Do object_store = object_store_Do"
    by (simp add: object_store_def)
  have ne: "''deadbeef'' \<noteq> Checksum testReference"
  proof
    assume "''deadbeef'' = Checksum testReference"
    then have "length ''deadbeef'' = length (Checksum testReference)"
      by (rule arg_cong)
    then show False
      by (simp add: testReference_def length_hex_EncodeToString length_sha256_Sum256)
  qed
  from a ne testStore Retrieve_mutated_reference [OF a testStore, of "''deadbeef''"]
  show ?thesis by simp
qed

text \<open>
  Claim C4 as stated fails on mutations of the URI.  \<open>Retrieve\<close> never looks at the
  first 17 bytes of the URI, so a reference whose scheme is overwritten still retrieves
  the data; and on a URI shorter than 17 bytes the slice expression panics.
\<close>

theorem Retrieve_mutated_reference_counterexample:
  "S3Backend_Store object_store no_objects testBackend ''trace1'' ''span1'' ''key1'' testData
     = (Inr testReference, testStored)
   \<and> URI testReference = ''promptvault://s3/bucket1/pre/trace1/span1/key1''
   \<and> fst (S3Backend_Retrieve object_store testStored testBackend
             (testReference\<lparr>URI := ''XXXXXXXXXXXXXXXXXbucket1/pre/trace1/span1/key1''\<rparr>))
       = Returned (Inr testData)
   \<and> fst (S3Backend_Retrieve object_store testStored testBackend (testReference\<lparr>URI := ''''\<rparr>))
       = Panicked SliceBoundsOutOfRange"
proof -
  have u: "URI testReference = ''promptvault://s3/bucket1/pre/trace1/span1/key1''"
    by (simp add: testReference_def)
  have r: "fst (S3Backend_Retrieve object_store testStored testBackend
             (testReference\<lparr>URI := ''XXXXXXXXXXXXXXXXXbucket1/pre/trace1/span1/key1''\<rparr>))
       = Returned (Inr testData)"
    unfolding S3Backend_Retrieve_def scheme_length
    by (simp add: http_NewRequestWithContext_def io_ReadAll_def object_store_def
          object_store_Do_def testBackend_def testReference_def testStored_def Let_def)
  have p: "fst (S3Backend_Retrieve object_store testStored testBackend (testReference\<lparr>URI := ''''\<rparr>))
       = Panicked SliceBoundsOutOfRange"
    unfolding S3Backend_Retrieve_def scheme_length
    by simp
  from testStore u r p show ?thesis by simp
qed

section \<open>The processor\<close>

lemma length_bytes_of_string: "length (bytes_of_string s) = length s"
  by (simp add: bytes_of_string_def)

text \<open>
  What the reference of a pending operation holds.  With encryption enabled, its
  checksum and its size are those of the ciphertext that \<open>Encrypt\<close> returned, which is
  28 bytes longer than the value of the attribute; without encryption they are those
  of the value itself.
\<close>

lemma processSpan_visit_encrypted:
  assumes "envelope p = Some e"
    and "fst (processSpan_visit env p traceID spanID (st, rnd) k v) = Returned (Some op)"
  shows "\<exists>c. fst (Envelope_Encrypt e rnd (bytes_of_string (Str v))) = Returned (Inr c)
           \<and> Checksum (op_ref op) = hex_EncodeToString (sha256_Sum256 c)
           \<and> SizeBytes (op_ref op) = int (length c)
           \<and> length c = length (Str v) + 28
           \<and> Encrypted (op_ref op)"
proof -
  obtain r rnd' where enc: "Envelope_Encrypt e rnd (bytes_of_string (Str v)) = (r, rnd')"
    by (cases "Envelope_Encrypt e rnd (bytes_of_string (Str v))")
  from assms enc obtain c where r: "r = Returned (Inr c)"
    by (auto simp: processSpan_visit_def Let_def split: if_splits outcome.splits sum.splits)
  obtain res st' where store:
    "S3Backend_Store env st (backend p) traceID spanID k c = (res, st')"
    by (cases "S3Backend_Store env st (backend p) traceID spanID k c")
  from assms enc r store obtain ref where res: "res = Inr ref"
    and op: "op = \<lparr>op_key = k, op_ref = ref\<lparr>Encrypted := True\<rparr>\<rparr>"
    by (cases res) (auto simp: processSpan_visit_def Let_def split: if_splits)
  have "fst (Envelope_Encrypt e rnd (bytes_of_string (Str v))) = Returned (Inr c)"
    using enc r by simp
  moreover from this have "length c = length (Str v) + 28"
    by (simp add: Envelope_Encrypt_Inr length_gcm_sealed length_bytes_of_string)
  moreover have "Checksum (op_ref op) = hex_EncodeToString (sha256_Sum256 c)"
    and "SizeBytes (op_ref op) = int (length c)" and "Encrypted (op_ref op)"
    using Store_Inr(1) [OF store [unfolded res]] op by simp_all
  ultimately show ?thesis by blast
qed

lemma processSpan_visit_plain:
  assumes "envelope p = None"
    and "fst (processSpan_visit env p traceID spanID (st, rnd) k v) = Returned (Some op)"
  shows "Checksum (op_ref op) = hex_EncodeToString (sha256_Sum256 (bytes_of_string (Str v)))
           \<and> SizeBytes (op_ref op) = int (length (Str v))
           \<and> \<not> Encrypted (op_ref op)"
proof -
  obtain res st' where store:
    "S3Backend_Store env st (backend p) traceID spanID k (bytes_of_string (Str v)) = (res, st')"
    by (cases "S3Backend_Store env st (backend p) traceID spanID k (bytes_of_string (Str v))")
  from assms store obtain ref where res: "res = Inr ref"
    and op: "op = \<lparr>op_key = k, op_ref = ref\<rparr>"
    by (cases res) (auto simp: processSpan_visit_def Let_def split: if_splits)
  show ?thesis
    using Store_Inr(1) [OF store [unfolded res]] op by (simp add: length_bytes_of_string)
qed

lemma testEncrypt:
  "Envelope_Encrypt testEnvelope testNonce [104, 105] = (Returned (Inr testCiphertext), [])"
  by (simp add: Envelope_Encrypt_def aes_NewCipher_def cipher_NewGCM_def cipher_BlockSize_def
        io_ReadFull_def gcm_NonceSize_def gcmStandardNonceSize_def gcm_Seal_def
        testEnvelope_def testNonce_def testCiphertext_def)

lemma length_testCiphertext: "length testCiphertext = 30"
  by (simp add: testCiphertext_def length_gcm_sealed testNonce_def)

lemma testVisit:
  "fst (processSpan_visit object_store testProcessor
          ''0102030405060708090a0b0c0d0e0f10'' ''0102030405060708''
          (no_objects, testNonce) ''gen_ai.prompt'' (ValueStr ''hi''))
     = Returned (Some testOp)"
  by (simp add: processSpan_visit_def testProcessor_def keySet_of_def bytes_of_string_def
        testEncrypt S3Backend_Store_def http_NewRequestWithContext_def object_store_def
        object_store_Do_def testBackend_def testOp_def length_testCiphertext Let_def)

text \<open>
  Claim C1 fails on the code.  With encryption enabled, \<open>processSpan\<close> hands the
  ciphertext to \<open>Store\<close>, which hashes the bytes it is given: the checksum of the
  reference is the digest of the ciphertext (nonce, encrypted bytes and tag), which is
  not the plaintext.  Here the code is run on the attribute \<open>gen_ai.prompt\<close> with value
  \<open>hi\<close>.
\<close>

theorem processSpan_checksum_of_ciphertext:
  "fst (processSpan_visit object_store testProcessor
          ''0102030405060708090a0b0c0d0e0f10'' ''0102030405060708''
          (no_objects, testNonce) ''gen_ai.prompt'' (ValueStr ''hi''))
     = Returned (Some testOp)
   \<and> Checksum (op_ref testOp) = hex_EncodeToString (sha256_Sum256 testCiphertext)
   \<and> fst (Envelope_Encrypt testEnvelope testNonce (bytes_of_string ''hi''))
       = Returned (Inr testCiphertext)
   \<and> testCiphertext \<noteq> bytes_of_string ''hi''"
proof -
  have "length testCiphertext \<noteq> length (bytes_of_string ''hi'')"
    by (simp add: length_testCiphertext bytes_of_string_def)
  then have "testCiphertext \<noteq> bytes_of_string ''hi''"
    by auto
  moreover have "fst (Envelope_Encrypt testEnvelope testNonce (bytes_of_string ''hi''))
       = Returned (Inr testCiphertext)"
    by (simp add: bytes_of_string_def testEncrypt)
  moreover have "Checksum (op_ref testOp) = hex_EncodeToString (sha256_Sum256 testCiphertext)"
    by (simp add: testOp_def)
  ultimately show ?thesis
    using testVisit by simp
qed

text \<open>
  Claim C2 fails on the code.  With encryption enabled, the size in the reference is the
  length of the ciphertext handed to \<open>Store\<close>: on the same input, 30 for a plaintext of 2
  bytes.
\<close>

theorem processSpan_size_of_ciphertext:
  "fst (processSpan_visit object_store testProcessor
          ''0102030405060708090a0b0c0d0e0f10'' ''0102030405060708''
          (no_objects, testNonce) ''gen_ai.prompt'' (ValueStr ''hi''))
     = Returned (Some testOp)
   \<and> SizeBytes (op_ref testOp) = 30
   \<and> int (length (bytes_of_string ''hi'')) = 2
   \<and> int (length testCiphertext) = 30"
proof -
  have "SizeBytes (op_ref testOp) = 30"
    by (simp add: testOp_def)
  moreover have "int (length (bytes_of_string ''hi'')) = 2"
    by (simp add: bytes_of_string_def)
  ultimately show ?thesis
    using testVisit length_testCiphertext by simp
qed

end
